(* ===== verification/Prelude.thy ===== *)
theory Prelude
  imports Complex_Main
begin

text \<open>
  Shared vocabulary of the development: the named theorem collections the component
  theories feed, the list operation \<open>join_sep\<close> (the separator join that both
  \<open>Array.prototype.join\<close> and the JavaScript string conversion of arrays use), and
  the generic lemmas on association lists and joins that the component proofs share.
\<close>

named_theorems js_simps "evaluation equations of the JavaScript value semantics"
named_theorems handler_defs "unfolding equations of the handlers of App.tsx"

type_synonym message = string

fun join_sep :: "string \<Rightarrow> string list \<Rightarrow> string" where
  "join_sep sep [] = []"
| "join_sep sep [x] = x"
| "join_sep sep (x # y # xs) = x @ sep @ join_sep sep (y # xs)"

lemma join_sep_empty_iff [simp]:
  assumes "sep \<noteq> []"
  shows "join_sep sep xs = [] \<longleftrightarrow> xs = [] \<or> xs = [[]]"
  using assms by (cases "(sep, xs)" rule: join_sep.cases) auto

lemma join_sep_map_append:
  "join_sep sep (map f (x # xs)) = f x @ concat (map (\<lambda>y. sep @ f y) xs)"
  by (induction xs arbitrary: x) auto

lemma join_sep_concat:
  "join_sep sep (x # xs) = x @ concat (map (\<lambda>y. sep @ y) xs)"
  using join_sep_map_append [of sep id x xs] by simp

lemma map_of_rev_distinct [simp]:
  assumes "distinct (map fst kvs)"
  shows "map_of (rev kvs) = map_of kvs"
proof (rule ext)
  fix k
  show "map_of (rev kvs) k = map_of kvs k"
  proof (cases "map_of kvs k")
    case None
    then have "k \<notin> fst ` set (rev kvs)" by (simp add: map_of_eq_None_iff)
    then show ?thesis using None by (metis map_of_eq_None_iff)
  next
    case (Some y)
    then have "(k, y) \<in> set (rev kvs)" by (simp add: map_of_SomeD)
    moreover have "distinct (map fst (rev kvs))" using assms by (simp add: rev_map [symmetric])
    ultimately show ?thesis using Some by simp
  qed
qed

end
