(* ===== verification/Js_Value.thy ===== *)
theory Js_Value
  imports Prelude
begin

text \<open>
  The JavaScript values that App.tsx inspects at run time, and the parts of the
  language semantics its control flow depends on: truthiness (the \<open>&&\<close>, \<open>!\<close>
  and \<open>if\<close> tests of \<open>handleSubmit\<close> and of the JSX), property access with the
  \<open>TypeError\<close> it throws on \<open>null\<close>/\<open>undefined\<close>, the short-circuit \<open>&&\<close>, the
  string conversion \<open>String(v)\<close> that \<open>new Error(v)\<close> applies to its argument,
  \<open>Array.prototype.join\<close>, and the conversion \<open>ToNumber(v)\<close> that the chart's
  \<open>100 - v\<close> applies. Values are those a JSON body decodes to (axios
  parses the response body with \<open>JSON.parse\<close>), plus \<open>undefined\<close>, the value
  of a missing property. Numbers are the exact values of their decimal literals
  (\<open>real\<close>); IEEE rounding is not modelled. Thrown values are \<open>js_exn\<close>: an
  \<open>Error\<close> object carries its message, anything else is thrown as a value.
\<close>

datatype jsval =
    JNull
  | JUndefined
  | JBool bool
  | JNum real
  | JStr string
  | JArr "jsval list"
  | JObj "(string \<times> jsval) list"

datatype js_exn = JsError message | JsThrow jsval

subsection \<open>Truthiness and property access\<close>

fun js_truthy :: "jsval \<Rightarrow> bool" where
  "js_truthy JNull = False"
| "js_truthy JUndefined = False"
| "js_truthy (JBool b) = b"
| "js_truthy (JNum n) = (n \<noteq> 0)"
| "js_truthy (JStr s) = (s \<noteq> [])"
| "js_truthy (JArr vs) = True"
| "js_truthy (JObj kvs) = True"

definition apostrophe :: char where
  "apostrophe = CHR 0x27"

text \<open>The message V8 gives the \<open>TypeError\<close> of reading property \<open>k\<close> of \<open>base\<close>.\<close>

definition read_type_error :: "string \<Rightarrow> string \<Rightarrow> js_exn" where
  "read_type_error base k =
     JsError (''Cannot read properties of '' @ base @ '' (reading '' @ [apostrophe] @ k @
       [apostrophe] @ '')'')"

text \<open>
  \<open>v[k]\<close> for the keys the program reads (\<open>data\<close>, \<open>error\<close>, \<open>skillMatch\<close>, \<open>matching\<close>,
  \<open>missing\<close>, \<open>additional\<close>, \<open>matchPercentage\<close> and the result's text fields):
  none of them is an index or a built-in property of a primitive or an array, so on
  those the read gives \<open>undefined\<close>; on an object parsed from JSON a duplicated key
  holds its last value, hence the lookup in the reversed association list.
\<close>

definition obj_field :: "(string \<times> jsval) list \<Rightarrow> string \<Rightarrow> jsval" where
  "obj_field kvs k = (case map_of (rev kvs) k of None \<Rightarrow> JUndefined | Some v \<Rightarrow> v)"

fun js_get :: "jsval \<Rightarrow> string \<Rightarrow> js_exn + jsval" where
  "js_get JNull k = Inl (read_type_error ''null'' k)"
| "js_get JUndefined k = Inl (read_type_error ''undefined'' k)"
| "js_get (JObj kvs) k = Inr (obj_field kvs k)"
| "js_get (JBool b) k = Inr JUndefined"
| "js_get (JNum n) k = Inr JUndefined"
| "js_get (JStr s) k = Inr JUndefined"
| "js_get (JArr vs) k = Inr JUndefined"

text \<open>\<open>a && b\<close>: \<open>b\<close> is evaluated (and may throw) only when \<open>a\<close> is truthy.\<close>

definition js_and :: "jsval \<Rightarrow> js_exn + jsval \<Rightarrow> js_exn + jsval" where
  "js_and a b = (if js_truthy a then b else Inr a)"

subsection \<open>String conversion\<close>

definition digit_char :: "nat \<Rightarrow> char" where
  "digit_char d = char_of (48 + d)"

fun nat_to_dec :: "nat \<Rightarrow> string" where
  "nat_to_dec n = (if n < 10 then [digit_char n] else nat_to_dec (n div 10) @ [digit_char (n mod 10)])"

text \<open>The value of a string of decimal digits (the digits of a numeric literal that
  \<open>ToNumber\<close> reads, below).\<close>

definition dec_value :: "string \<Rightarrow> nat" where
  "dec_value s = foldl (\<lambda>acc c. 10 * acc + (of_char c - 48)) 0 s"

text \<open>
  \<open>Number::toString(x)\<close> (ECMA-262, section 6.1.6.1.20) on the exact value of a
  decimal literal. For \<open>x > 0\<close> it takes the integers \<open>s\<close>, \<open>k\<close>, \<open>n\<close> with
  \<open>10^(k-1) \<le> s < 10^k\<close>, \<open>x = s * 10^(n-k)\<close> and \<open>k\<close> least: \<open>dec_places\<close> finds the
  number \<open>m\<close> of decimal places of \<open>x\<close>, \<open>trailing_zeros\<close> strips the zeros of the
  integer \<open>x * 10^m\<close>, and \<open>s\<close> is what is left. The digits of \<open>s\<close> are then written
  as an integer (\<open>k \<le> n \<le> 21\<close>), with a decimal point (\<open>0 < n \<le> 21\<close>), after
  \<open>0.\<close> and zeros (\<open>-6 < n \<le> 0\<close>), or in exponent form. The fuel of 400 places covers
  every literal of at most 17 significant digits in the range of doubles (the
  smallest is about \<open>5e-324\<close>). For a literal of at most 15 significant digits the
  double it parses to prints as these digits, so the model agrees with JavaScript
  there; IEEE rounding of longer literals is not modelled.
\<close>

fun dec_places :: "nat \<Rightarrow> nat \<Rightarrow> real \<Rightarrow> nat" where
  "dec_places 0 m x = m"
| "dec_places (Suc f) m x = (if x * 10 ^ m = of_int \<lfloor>x * 10 ^ m\<rfloor> then m else dec_places f (Suc m) x)"

fun trailing_zeros :: "nat \<Rightarrow> nat" where
  "trailing_zeros d = (if d \<noteq> 0 \<and> d mod 10 = 0 then Suc (trailing_zeros (d div 10)) else 0)"

definition zeros :: "nat \<Rightarrow> string" where
  "zeros j = replicate j (CHR ''0'')"

definition positive_number_string :: "real \<Rightarrow> string" where
  "positive_number_string x =
     (let m = dec_places 400 0 x; d = nat \<lfloor>x * 10 ^ m\<rfloor>; z = trailing_zeros d;
          ds = nat_to_dec (d div 10 ^ z); k = length ds; n = int k + int z - int m
      in if int k \<le> n \<and> n \<le> 21 then ds @ zeros (nat n - k)
         else if 0 < n \<and> n \<le> 21 then take (nat n) ds @ ''.'' @ drop (nat n) ds
         else if -6 < n \<and> n \<le> 0 then ''0.'' @ zeros (nat (- n)) @ ds
         else take 1 ds @ (if k = 1 then [] else ''.'' @ drop 1 ds) @ ''e'' @
              (if 0 \<le> n - 1 then ''+'' else ''-'') @ nat_to_dec (nat \<bar>n - 1\<bar>))"

definition js_number_string :: "real \<Rightarrow> string" where
  "js_number_string r =
     (if r = 0 then ''0'' else if r < 0 then ''-'' @ positive_number_string (- r)
      else positive_number_string r)"

text \<open>\<open>String(v)\<close>; an array converts as \<open>join(",")\<close> with \<open>null\<close> and \<open>undefined\<close>
  elements as empty strings (\<open>js_join_elem\<close>).\<close>

fun js_String :: "jsval \<Rightarrow> string"
  and js_join_elem :: "jsval \<Rightarrow> string" where
  "js_String JNull = ''null''"
| "js_String JUndefined = ''undefined''"
| "js_String (JBool b) = (if b then ''true'' else ''false'')"
| "js_String (JNum n) = js_number_string n"
| "js_String (JStr s) = s"
| "js_String (JArr vs) = join_sep '','' (map js_join_elem vs)"
| "js_String (JObj kvs) = ''[object Object]''"
| "js_join_elem JNull = []"
| "js_join_elem JUndefined = []"
| "js_join_elem (JBool b) = js_String (JBool b)"
| "js_join_elem (JNum n) = js_String (JNum n)"
| "js_join_elem (JStr s) = s"
| "js_join_elem (JArr vs) = js_String (JArr vs)"
| "js_join_elem (JObj kvs) = js_String (JObj kvs)"

text \<open>\<open>new Error(v)\<close>: the message is \<open>String(v)\<close>, or empty for \<open>undefined\<close>.\<close>

definition js_new_error :: "jsval \<Rightarrow> js_exn" where
  "js_new_error v = JsError (if v = JUndefined then [] else js_String v)"

text \<open>\<open>v.join(sep)\<close>: only arrays have the method; reading it from \<open>null\<close> or
  \<open>undefined\<close> throws the read error, calling the missing method on any other value
  throws \<open>TypeError: ... is not a function\<close>.\<close>

fun js_join_call :: "jsval \<Rightarrow> string \<Rightarrow> js_exn + string" where
  "js_join_call JNull sep = Inl (read_type_error ''null'' ''join'')"
| "js_join_call JUndefined sep = Inl (read_type_error ''undefined'' ''join'')"
| "js_join_call (JArr vs) sep = Inr (join_sep sep (map js_join_elem vs))"
| "js_join_call (JBool b) sep = Inl (JsError ''join is not a function'')"
| "js_join_call (JNum n) sep = Inl (JsError ''join is not a function'')"
| "js_join_call (JStr s) sep = Inl (JsError ''join is not a function'')"
| "js_join_call (JObj kvs) sep = Inl (JsError ''join is not a function'')"

subsection \<open>Number conversion\<close>

text \<open>
  \<open>ToNumber(v)\<close>, which \<open>100 - v\<close> applies to its operand. A result is \<open>NaN\<close>, a
  number, or an infinity (\<open>JsInf True\<close> is \<open>+Infinity\<close>). A string converts by
  \<open>StringToNumber\<close>: white space is trimmed at both ends, the empty string is 0, a
  hexadecimal, octal or binary literal (\<open>0x\<close>, \<open>0o\<close>, \<open>0b\<close>, no sign) and a signed
  decimal literal with optional fraction and exponent, or \<open>Infinity\<close>, read as their
  value, and anything else is \<open>NaN\<close>. An array or object converts through its string.
  The white space is the ASCII part of JavaScript's \<open>StrWhiteSpaceChar\<close>.
\<close>

datatype js_number = JsNaN | JsNum real | JsInf bool

definition js_whitespace :: "char list" where
  "js_whitespace = [CHR 0x20, CHR 0x09, CHR 0x0A, CHR 0x0B, CHR 0x0C, CHR 0x0D]"

definition js_trim :: "string \<Rightarrow> string" where
  "js_trim s = rev (dropWhile (\<lambda>c. c \<in> set js_whitespace) (rev (dropWhile (\<lambda>c. c \<in> set js_whitespace) s)))"

definition is_dec_digit :: "char \<Rightarrow> bool" where
  "is_dec_digit c = (48 \<le> (of_char c :: nat) \<and> (of_char c :: nat) \<le> 57)"

definition radix_digit :: "nat \<Rightarrow> char \<Rightarrow> nat option" where
  "radix_digit b c =
     (let n = (of_char c :: nat);
          d = (if 48 \<le> n \<and> n \<le> 57 then n - 48
               else if 97 \<le> n \<and> n \<le> 122 then n - 87
               else if 65 \<le> n \<and> n \<le> 90 then n - 55 else b)
      in if d < b then Some d else None)"

definition radix_value :: "nat \<Rightarrow> nat list \<Rightarrow> nat" where
  "radix_value b ds = foldl (\<lambda>acc d. b * acc + d) 0 ds"

definition literal_radix :: "char \<Rightarrow> nat" where
  "literal_radix c =
     (if c \<in> set ''xX'' then 16 else if c \<in> set ''oO'' then 8 else if c \<in> set ''bB'' then 2 else 0)"

fun non_decimal_literal :: "string \<Rightarrow> real option" where
  "non_decimal_literal (c0 # c1 # ds) =
     (if c0 = CHR ''0'' \<and> 0 < literal_radix c1 \<and> ds \<noteq> []
      then map_option (\<lambda>xs. of_nat (radix_value (literal_radix c1) xs))
             (those (map (radix_digit (literal_radix c1)) ds))
      else None)"
| "non_decimal_literal _ = None"

definition exponent_part :: "string \<Rightarrow> int option" where
  "exponent_part r =
     (case r of
        [] \<Rightarrow> Some 0
      | c # t \<Rightarrow>
          if c \<notin> set ''eE'' then None
          else (let sg = (if t \<noteq> [] \<and> hd t = CHR ''-'' then -1 else 1 :: int);
                    ds = (if t \<noteq> [] \<and> hd t \<in> set ''+-'' then tl t else t)
                in if ds \<noteq> [] \<and> list_all is_dec_digit ds then Some (sg * int (dec_value ds)) else None))"

definition scale10 :: "real \<Rightarrow> int \<Rightarrow> real" where
  "scale10 x e = (if 0 \<le> e then x * 10 ^ nat e else x / 10 ^ nat (- e))"

definition unsigned_decimal :: "string \<Rightarrow> js_number option" where
  "unsigned_decimal s =
     (if s = ''Infinity'' then Some (JsInf True)
      else (let ip = takeWhile is_dec_digit s; r1 = dropWhile is_dec_digit s;
                fp = (if r1 \<noteq> [] \<and> hd r1 = CHR ''.'' then takeWhile is_dec_digit (tl r1) else []);
                r2 = (if r1 \<noteq> [] \<and> hd r1 = CHR ''.'' then dropWhile is_dec_digit (tl r1) else r1)
            in if ip = [] \<and> fp = [] then None
               else map_option (\<lambda>e. JsNum (scale10 (of_nat (dec_value ip) +
                                              of_nat (dec_value fp) / 10 ^ length fp) e))
                      (exponent_part r2)))"

fun js_neg :: "js_number \<Rightarrow> js_number" where
  "js_neg JsNaN = JsNaN"
| "js_neg (JsNum r) = JsNum (- r)"
| "js_neg (JsInf b) = JsInf (\<not> b)"

definition decimal_literal :: "string \<Rightarrow> js_number option" where
  "decimal_literal s =
     (case s of
        [] \<Rightarrow> None
      | c # t \<Rightarrow>
          if c = CHR ''-'' then map_option js_neg (unsigned_decimal t)
          else if c = CHR ''+'' then unsigned_decimal t else unsigned_decimal s)"

definition js_string_to_number :: "string \<Rightarrow> js_number" where
  "js_string_to_number s =
     (let t = js_trim s
      in if t = [] then JsNum 0
         else (case non_decimal_literal t of
                 Some r \<Rightarrow> JsNum r
               | None \<Rightarrow> (case decimal_literal t of Some n \<Rightarrow> n | None \<Rightarrow> JsNaN)))"

fun js_to_number :: "jsval \<Rightarrow> js_number" where
  "js_to_number JNull = JsNum 0"
| "js_to_number JUndefined = JsNaN"
| "js_to_number (JBool b) = JsNum (if b then 1 else 0)"
| "js_to_number (JNum r) = JsNum r"
| "js_to_number (JStr s) = js_string_to_number s"
| "js_to_number (JArr vs) = js_string_to_number (js_String (JArr vs))"
| "js_to_number (JObj kvs) = js_string_to_number (js_String (JObj kvs))"

text \<open>\<open>a - b\<close> on numbers, with the infinities and \<open>NaN\<close> of IEEE arithmetic.\<close>

fun js_minus :: "js_number \<Rightarrow> js_number \<Rightarrow> js_number" where
  "js_minus (JsNum a) (JsNum b) = JsNum (a - b)"
| "js_minus (JsNum a) (JsInf b) = JsInf (\<not> b)"
| "js_minus (JsInf a) (JsNum b) = JsInf a"
| "js_minus (JsInf a) (JsInf b) = (if a \<noteq> b then JsInf a else JsNaN)"
| "js_minus _ _ = JsNaN"

subsection \<open>Facts the handlers use\<close>

declare nat_to_dec.simps [simp del]

lemma digit_char_0 [simp]: "digit_char 0 = CHR ''0''"
  by code_simp

lemma of_char_digit: "d < 10 \<Longrightarrow> of_char (digit_char d) = 48 + d"
  by (simp add: digit_char_def)

lemma js_get_truthy_Inr [js_simps]:
  "js_truthy v \<Longrightarrow> js_get v k =
     Inr (case v of JObj kvs \<Rightarrow> obj_field kvs k | _ \<Rightarrow> JUndefined)"
  by (cases v) auto

lemma js_get_Inl_iff [js_simps]:
  "(\<exists>e. js_get v k = Inl e) \<longleftrightarrow> v = JNull \<or> v = JUndefined"
  by (cases v) auto

lemma js_and_simps [js_simps]:
  "js_truthy a \<Longrightarrow> js_and a b = b"
  "\<not> js_truthy a \<Longrightarrow> js_and a b = Inr a"
  by (simp_all add: js_and_def)

lemma obj_field_distinct [js_simps]:
  "distinct (map fst kvs) \<Longrightarrow>
     obj_field kvs k = (case map_of kvs k of None \<Rightarrow> JUndefined | Some v \<Rightarrow> v)"
  by (simp add: obj_field_def)

lemma js_join_elem_String [js_simps]:
  "v \<noteq> JNull \<Longrightarrow> v \<noteq> JUndefined \<Longrightarrow> js_join_elem v = js_String v"
  by (cases v) auto

lemma map_join_elem_JStr [simp]: "map (js_join_elem \<circ> JStr) xs = xs"
  by (induction xs) auto

lemma js_join_call_strings [js_simps]:
  "js_join_call (JArr (map JStr xs)) sep = Inr (join_sep sep xs)"
  by (simp add: comp_def)


subsection \<open>Integers print as their digits\<close>

declare trailing_zeros.simps [simp del]

lemma nat_to_dec_times10: "0 < m \<Longrightarrow> nat_to_dec (m * 10) = nat_to_dec m @ ''0''"
  by (simp add: nat_to_dec.simps [of "m * 10"])

lemma nat_to_dec_pow10: "0 < m \<Longrightarrow> nat_to_dec (m * 10 ^ z) = nat_to_dec m @ zeros z"
proof (induction z)
  case (Suc z)
  have "nat_to_dec (m * 10 ^ Suc z) = nat_to_dec (m * 10 ^ z * 10)" by (simp add: ac_simps)
  also have "\<dots> = nat_to_dec m @ zeros z @ ''0''" using Suc by (simp add: nat_to_dec_times10)
  finally show ?case by (simp add: zeros_def replicate_append_same)
qed (simp add: zeros_def)

lemma trailing_zeros_dvd: "10 ^ trailing_zeros d dvd d"
proof (induction d rule: trailing_zeros.induct)
  case (1 d)
  show ?case
  proof (cases "d \<noteq> 0 \<and> d mod 10 = 0")
    case True
    obtain q where q: "d div 10 = 10 ^ trailing_zeros (d div 10) * q"
      using "1.IH" [OF True] by (auto elim: dvdE)
    have d10: "10 * (d div 10) = d" using True by (metis mult_div_mod_eq add_0_right)
    have "d = 10 ^ Suc (trailing_zeros (d div 10)) * q" using d10 q by (simp add: mult.assoc)
    then have "10 ^ Suc (trailing_zeros (d div 10)) dvd d" by (rule dvdI)
    then show ?thesis using True by (simp add: trailing_zeros.simps [of d])
  next
    case False
    then have "trailing_zeros d = 0" by (simp add: trailing_zeros.simps [of d])
    then show ?thesis by simp
  qed
qed

lemma length_nat_to_dec: "n < 10 ^ j \<Longrightarrow> 0 < j \<Longrightarrow> length (nat_to_dec n) \<le> j"
proof (induction n arbitrary: j rule: nat_to_dec.induct)
  case (1 n)
  show ?case
  proof (cases "n < 10")
    case False
    obtain i where j: "j = Suc i" using "1.prems"(2) by (cases j) auto
    have "0 < i"
    proof (rule ccontr)
      assume "\<not> 0 < i"
      then have "n < 10" using "1.prems"(1) j by simp
      with False show False by simp
    qed
    have "n div 10 < 10 ^ i" using "1.prems"(1) j by (simp add: div_less_iff_less_mult)
    with False "1.IH" [of i] \<open>0 < i\<close> show ?thesis by (simp add: nat_to_dec.simps [of n] j)
  qed (use "1.prems" in \<open>simp add: nat_to_dec.simps [of n]\<close>)
qed

lemma positive_number_string_nat:
  assumes "0 < n" and "n < 10 ^ 21"
  shows "positive_number_string (of_nat n) = nat_to_dec n"
proof -
  define z where "z = trailing_zeros n"
  define s where "s = n div 10 ^ z"
  have n: "n = s * 10 ^ z" using trailing_zeros_dvd [of n] by (simp add: s_def z_def)
  then have "0 < s" using assms(1) by (cases s) simp_all
  then have ds: "nat_to_dec n = nat_to_dec s @ zeros z" by (simp add: n nat_to_dec_pow10)
  have "length (nat_to_dec n) \<le> 21" using assms(2) by (intro length_nat_to_dec) simp_all
  then have "length (nat_to_dec s) + z \<le> 21" by (simp add: ds zeros_def)
  moreover have "dec_places f 0 (of_nat n) = 0" for f by (cases f) simp_all
  ultimately show ?thesis
    by (simp add: positive_number_string_def Let_def ds z_def [symmetric] s_def [symmetric]
        flip: of_nat_add del: dec_places.simps)
qed

lemma js_number_string_int:
  assumes "i \<noteq> 0" and "\<bar>i\<bar> < 10 ^ 21"
  shows "js_number_string (of_int i) = (if i < 0 then ''-'' else []) @ nat_to_dec (nat \<bar>i\<bar>)"
proof -
  have p: "positive_number_string \<bar>real_of_int i\<bar> = nat_to_dec (nat \<bar>i\<bar>)"
    using positive_number_string_nat [of "nat \<bar>i\<bar>"] assms by (simp add: nat_less_iff)
  show ?thesis
  proof (cases "i < 0")
    case True
    then have "js_number_string (of_int i) = ''-'' @ positive_number_string \<bar>real_of_int i\<bar>"
      by (simp add: js_number_string_def)
    with True p show ?thesis by simp
  next
    case False
    then have "js_number_string (of_int i) = positive_number_string \<bar>real_of_int i\<bar>"
      using assms(1) by (simp add: js_number_string_def)
    with False p show ?thesis by simp
  qed
qed

end
