(* ===== verification/Intake.thy ===== *)
theory Intake
  imports Js_Value
begin

text \<open>
  File intake. App.tsx configures react-dropzone (lines 29--31) with
  \<open>accept: {"application/pdf": [".pdf"]}\<close> and \<open>maxFiles: 1\<close>; the library calls
  \<open>onDrop\<close> with the files it accepts. The library is a collaborator, not code of
  the repository: \<open>dropzone_accepted\<close> is its documented reading of this
  configuration. A file is accepted when its MIME type is the listed one or its name
  ends in the listed extension (compared in lower case); when more files pass that
  test than \<open>maxFiles\<close> allows, every one of them is rejected.
\<close>

record file_obj =
  file_name :: string
  file_type :: string

definition accept_mime :: string where
  "accept_mime = ''application/pdf''"

definition accept_ext :: string where
  "accept_ext = ''.pdf''"

definition max_files :: nat where
  "max_files = 1"

definition lower_ascii :: "char \<Rightarrow> char" where
  "lower_ascii c =
     (let n = (of_char c :: nat) in if 65 \<le> n \<and> n \<le> 90 then char_of (n + 32) else c)"

definition ends_with :: "string \<Rightarrow> string \<Rightarrow> bool" where
  "ends_with sfx s = (drop (length s - length sfx) s = sfx)"

definition pdf_accepted :: "file_obj \<Rightarrow> bool" where
  "pdf_accepted f = (file_type f = accept_mime \<or> ends_with accept_ext (map lower_ascii (file_name f)))"

definition dropzone_accepted :: "file_obj list \<Rightarrow> file_obj list" where
  "dropzone_accepted fs =
     (let acc = filter pdf_accepted fs in if max_files < length acc then [] else acc)"

lemma dropzone_accepted_pdf:
  "f \<in> set (dropzone_accepted fs) \<Longrightarrow> pdf_accepted f"
  by (auto simp: dropzone_accepted_def Let_def split: if_splits)

lemma dropzone_accepted_Cons_pdf:
  "dropzone_accepted fs = f # rest \<Longrightarrow> pdf_accepted f"
  using dropzone_accepted_pdf [of f fs] by simp

lemma dropzone_accepted_cases:
  "dropzone_accepted fs = (case filter pdf_accepted fs of [f] \<Rightarrow> [f] | _ \<Rightarrow> [])"
  by (auto simp: dropzone_accepted_def max_files_def Let_def split: list.splits)

lemma ends_with_append [simp]: "ends_with sfx (pre @ sfx)"
  by (simp add: ends_with_def)

end
