(* ===== verification/Result_Model.thy ===== *)
theory Result_Model
  imports Js_Value "HOL-Library.Monad_Syntax"
begin

text \<open>
  The \<open>ExtractionResult\<close> interface of App.tsx (lines 8--20) as two records, and the
  JSON shape it types: \<open>decode_result\<close> says which JSON values inhabit the interface
  (an object whose fields have the declared types; further fields are allowed, as in
  TypeScript's structural typing), \<open>encode_result\<close> gives the JSON object of a record.
  App.tsx itself never checks the shape: \<open>setExtractedData(response.data.data)\<close>
  stores whatever the server sent, and the view trusts the type.
\<close>

record skill_match =
  matching :: "string list"
  missing :: "string list"
  additional :: "string list"
  match_percentage :: real

record extraction_result =
  name :: string
  skills :: string
  education :: string
  experience :: string
  dob :: string
  skill_match :: skill_match

subsection \<open>Reading JSON values at the declared types\<close>

fun js_str_of :: "jsval \<Rightarrow> string option" where
  "js_str_of (JStr s) = Some s"
| "js_str_of _ = None"

fun js_num_of :: "jsval \<Rightarrow> real option" where
  "js_num_of (JNum n) = Some n"
| "js_num_of _ = None"

fun js_str_list_of :: "jsval \<Rightarrow> string list option" where
  "js_str_list_of (JArr vs) = those (map js_str_of vs)"
| "js_str_list_of _ = None"

fun decode_skill_match :: "jsval \<Rightarrow> skill_match option" where
  "decode_skill_match (JObj kvs) = do {
     m \<leftarrow> js_str_list_of (obj_field kvs ''matching'');
     mi \<leftarrow> js_str_list_of (obj_field kvs ''missing'');
     a \<leftarrow> js_str_list_of (obj_field kvs ''additional'');
     p \<leftarrow> js_num_of (obj_field kvs ''matchPercentage'');
     Some \<lparr>matching = m, missing = mi, additional = a, match_percentage = p\<rparr>
   }"
| "decode_skill_match _ = None"

fun decode_result :: "jsval \<Rightarrow> extraction_result option" where
  "decode_result (JObj kvs) = do {
     n \<leftarrow> js_str_of (obj_field kvs ''name'');
     s \<leftarrow> js_str_of (obj_field kvs ''skills'');
     ed \<leftarrow> js_str_of (obj_field kvs ''education'');
     ex \<leftarrow> js_str_of (obj_field kvs ''experience'');
     d \<leftarrow> js_str_of (obj_field kvs ''dob'');
     sm \<leftarrow> decode_skill_match (obj_field kvs ''skillMatch'');
     Some \<lparr>name = n, skills = s, education = ed, experience = ex, dob = d, skill_match = sm\<rparr>
   }"
| "decode_result _ = None"

subsection \<open>The JSON object of a record\<close>

definition encode_skill_match :: "skill_match \<Rightarrow> jsval" where
  "encode_skill_match sm = JObj
     [(''matching'', JArr (map JStr (matching sm))),
      (''missing'', JArr (map JStr (missing sm))),
      (''additional'', JArr (map JStr (additional sm))),
      (''matchPercentage'', JNum (match_percentage sm))]"

definition encode_result :: "extraction_result \<Rightarrow> jsval" where
  "encode_result r = JObj
     [(''name'', JStr (name r)),
      (''skills'', JStr (skills r)),
      (''education'', JStr (education r)),
      (''experience'', JStr (experience r)),
      (''dob'', JStr (dob r)),
      (''skillMatch'', encode_skill_match (skill_match r))]"

subsection \<open>Lemmas\<close>

lemma those_map_js_str_of [simp]: "those (map (js_str_of \<circ> JStr) xs) = Some xs"
  by (induction xs) auto

lemma js_str_list_of_Some [simp]: "js_str_list_of (JArr (map JStr xs)) = Some xs"
  by simp

lemma decode_encode_skill_match [simp]:
  "decode_skill_match (encode_skill_match sm) = Some sm"
  by (simp add: encode_skill_match_def obj_field_def)

lemma decode_result_JObj:
  "decode_result v = Some r \<Longrightarrow> \<exists>kvs. v = JObj kvs"
  by (cases v) auto

lemma decode_result_truthy [simp]:
  "decode_result v = Some r \<Longrightarrow> js_truthy v"
  by (auto dest: decode_result_JObj)

lemma encode_result_truthy [simp]: "js_truthy (encode_result r)"
  by (simp add: encode_result_def)

lemma js_get_encode_skill_match [simp]:
  "js_get (encode_result r) ''skillMatch'' = Inr (encode_skill_match (skill_match r))"
  by (simp add: encode_result_def obj_field_def)

lemma js_get_encode_lists [simp]:
  "js_get (encode_skill_match sm) ''matching'' = Inr (JArr (map JStr (matching sm)))"
  "js_get (encode_skill_match sm) ''missing'' = Inr (JArr (map JStr (missing sm)))"
  "js_get (encode_skill_match sm) ''additional'' = Inr (JArr (map JStr (additional sm)))"
  by (simp_all add: encode_skill_match_def obj_field_def)

lemma js_str_of_Some: "js_str_of v = Some s \<Longrightarrow> v = JStr s"
  by (cases v) auto

lemma js_num_of_Some: "js_num_of v = Some n \<Longrightarrow> v = JNum n"
  by (cases v) auto

lemma those_js_str_of_Some: "those (map js_str_of vs) = Some xs \<Longrightarrow> vs = map JStr xs"
proof (induction vs arbitrary: xs)
  case (Cons v vs)
  then show ?case by (auto split: option.splits dest: js_str_of_Some)
qed simp

lemma js_str_list_of_SomeD: "js_str_list_of v = Some xs \<Longrightarrow> v = JArr (map JStr xs)"
  by (cases v) (auto dest: those_js_str_of_Some)

lemmas decode_field_dests = js_str_of_Some js_num_of_Some js_str_list_of_SomeD

lemma decode_skill_match_Some:
  "decode_skill_match v = Some sm \<Longrightarrow> \<exists>kvs. v = JObj kvs \<and>
     obj_field kvs ''matching'' = JArr (map JStr (matching sm)) \<and>
     obj_field kvs ''missing'' = JArr (map JStr (missing sm)) \<and>
     obj_field kvs ''additional'' = JArr (map JStr (additional sm)) \<and>
     obj_field kvs ''matchPercentage'' = JNum (match_percentage sm)"
  by (cases v) (auto simp: bind_eq_Some_conv dest!: decode_field_dests)

lemma decode_result_Some:
  "decode_result v = Some r \<Longrightarrow> \<exists>kvs. v = JObj kvs \<and>
     obj_field kvs ''name'' = JStr (name r) \<and> obj_field kvs ''skills'' = JStr (skills r) \<and>
     obj_field kvs ''education'' = JStr (education r) \<and>
     obj_field kvs ''experience'' = JStr (experience r) \<and> obj_field kvs ''dob'' = JStr (dob r) \<and>
     decode_skill_match (obj_field kvs ''skillMatch'') = Some (skill_match r)"
  by (cases v) (auto simp: bind_eq_Some_conv dest!: js_str_of_Some)

end
