(* ===== verification/View_State.thy ===== *)
theory View_State
  imports Intake Result_Model
begin

text \<open>
  The state App.tsx keeps in its five \<open>useState\<close> hooks (lines 23--27), as one
  record, and the two input handlers that write it outside a submission: the
  dropzone's \<open>onDrop\<close> (lines 32--35) and the textarea's \<open>onChange\<close> (line 134).
  \<open>resume\<close> is \<open>None\<close> for both \<open>null\<close> and \<open>undefined\<close> (the code tests it only
  for truthiness); \<open>extracted_data\<close> holds the raw JSON value the server sent.
  A React setter called several times in one handler takes effect as the sequence of
  its updates, so each handler is one function from state to state.
\<close>

record view_state =
  resume :: "file_obj option"
  job_description :: string
  extracted_data :: "jsval option"
  is_loading :: bool
  error :: "message option"

definition init_view :: view_state where
  "init_view = \<lparr>resume = None, job_description = [], extracted_data = None,
     is_loading = False, error = None\<rparr>"

text \<open>\<open>setResume(acceptedFiles[0]); setError(null)\<close>: an empty list of accepted
  files stores \<open>undefined\<close>, i.e. clears the held file.\<close>

definition on_drop :: "file_obj list \<Rightarrow> view_state \<Rightarrow> view_state" where
  "on_drop accepted st =
     st\<lparr>resume := (case accepted of [] \<Rightarrow> None | f # _ \<Rightarrow> Some f), error := None\<rparr>"

definition on_job_change :: "string \<Rightarrow> view_state \<Rightarrow> view_state" where
  "on_job_change t st = st\<lparr>job_description := t\<rparr>"

declare on_drop_def [handler_defs] on_job_change_def [handler_defs]

lemma on_drop_frame [simp]:
  "job_description (on_drop a st) = job_description st"
  "extracted_data (on_drop a st) = extracted_data st"
  "is_loading (on_drop a st) = is_loading st"
  "error (on_drop a st) = None"
  by (simp_all add: on_drop_def)

lemma on_job_change_frame [simp]:
  "resume (on_job_change t st) = resume st"
  "job_description (on_job_change t st) = t"
  "extracted_data (on_job_change t st) = extracted_data st"
  "is_loading (on_job_change t st) = is_loading st"
  "error (on_job_change t st) = error st"
  by (simp_all add: on_job_change_def)

text \<open>
  C13 (functional, intake): after a drop, the held resume is the one file that
  passed the dropzone's filter, and no file at all when none or more than one did;
  the error message is cleared either way.
\<close>

theorem drop_resume:
  "resume (on_drop (dropzone_accepted fs) st) =
     (case filter pdf_accepted fs of [f] \<Rightarrow> Some f | _ \<Rightarrow> None) \<and>
   error (on_drop (dropzone_accepted fs) st) = None"
  by (simp add: on_drop_def dropzone_accepted_cases split: list.splits)

end
