(* ===== verification/Validator.thy ===== *)
theory Validator
  imports View_State
begin

text \<open>
  The two preconditions of a submission as App.tsx checks them: the guards at the
  top of \<open>handleSubmit\<close> (lines 44--45), which throw the message a failing
  submission shows, and the \<open>disabled\<close> expression of the submit button (line 140),
  which drops the click before \<open>handleSubmit\<close> runs. Both test the job text for
  emptiness only (\<open>!jobDescription\<close>). Next to them, \<open>spec_validate\<close> is the
  validator of the specification (section 4.1), which also rejects a job text made
  of white space only.
\<close>

definition validate :: "file_obj option \<Rightarrow> string \<Rightarrow> message + file_obj" where
  "validate r jd =
     (case r of
        None \<Rightarrow> Inl ''Please upload a resume''
      | Some f \<Rightarrow> if jd = [] then Inl ''Please enter a job description'' else Inr f)"

definition submit_disabled :: "view_state \<Rightarrow> bool" where
  "submit_disabled st = (is_loading st \<or> resume st = None \<or> job_description st = [])"

datatype validation_error = MissingFile | MissingJobText

definition is_blank :: "string \<Rightarrow> bool" where
  "is_blank s = list_all (\<lambda>c. c \<in> set js_whitespace) s"

definition spec_validate :: "file_obj option \<Rightarrow> string \<Rightarrow> validation_error + file_obj" where
  "spec_validate r jd =
     (case r of
        None \<Rightarrow> Inl MissingFile
      | Some f \<Rightarrow> if is_blank jd then Inl MissingJobText else Inr f)"

lemma validate_Inr_iff:
  "validate r jd = Inr f \<longleftrightarrow> r = Some f \<and> jd \<noteq> []"
  by (auto simp: validate_def split: option.splits)

lemma validate_Inl_cases:
  "validate r jd = Inl m \<Longrightarrow>
     (r = None \<and> m = ''Please upload a resume'') \<or>
     (r \<noteq> None \<and> jd = [] \<and> m = ''Please enter a job description'')"
  by (auto simp: validate_def split: option.splits if_splits)

text \<open>
  C11 (safety): the button's guard implies the handler's guards, so a click that is
  not dropped always passes validation: the two validation messages of
  \<open>handleSubmit\<close> can never be produced through the button.
\<close>

theorem enabled_click_validates:
  assumes "\<not> submit_disabled st"
  shows "\<exists>f. resume st = Some f \<and> validate (resume st) (job_description st) = Inr f"
  using assms by (auto simp: submit_disabled_def validate_Inr_iff)

theorem enabled_click_validates_witness:
  "\<not> submit_disabled (init_view\<lparr>resume := Some \<lparr>file_name = ''cv.pdf'', file_type = ''application/pdf''\<rparr>,
       job_description := ''Python''\<rparr>) \<and>
   (\<exists>f. resume (init_view\<lparr>resume := Some \<lparr>file_name = ''cv.pdf'', file_type = ''application/pdf''\<rparr>,
       job_description := ''Python''\<rparr>) = Some f \<and>
     validate (Some \<lparr>file_name = ''cv.pdf'', file_type = ''application/pdf''\<rparr>) ''Python'' = Inr f)"
  using enabled_click_validates [of "init_view\<lparr>resume := Some \<lparr>file_name = ''cv.pdf'',
      file_type = ''application/pdf''\<rparr>, job_description := ''Python''\<rparr>"]
  by (simp add: submit_disabled_def init_view_def)

text \<open>
  C12 (divergence from the specification): a job text of white space only passes
  the code's validator, while the specification's validator rejects it as
  \<open>MissingJobText\<close>.
\<close>

theorem blank_job_text_accepted:
  assumes "jd \<noteq> []" and "is_blank jd"
  shows "validate (Some f) jd = Inr f \<and> spec_validate (Some f) jd = Inl MissingJobText"
  using assms by (simp add: validate_def spec_validate_def)

theorem blank_job_text_accepted_witness:
  "validate (Some \<lparr>file_name = ''cv.pdf'', file_type = ''application/pdf''\<rparr>) ''   '' =
     Inr \<lparr>file_name = ''cv.pdf'', file_type = ''application/pdf''\<rparr> \<and>
   spec_validate (Some \<lparr>file_name = ''cv.pdf'', file_type = ''application/pdf''\<rparr>) ''   '' =
     Inl MissingJobText"
  by (rule blank_job_text_accepted) (simp_all add: is_blank_def js_whitespace_def)

end
