(* ===== verification/Submission.thy ===== *)
theory Submission
  imports Validator
begin

text \<open>
  The submission controller, \<open>handleSubmit\<close> (App.tsx lines 38--68). The handler is
  an \<open>async\<close> function that suspends once, at \<open>await axios.post(...)\<close>; it is
  modelled as its two synchronous halves:
  \<^item> \<open>submit_begin\<close>: lines 40--53 up to the request: set the loading flag, clear the
    error, run the two guards (a failing guard throws, and the \<open>catch\<close> and
    \<open>finally\<close> blocks run in the same tick), build the multi-part body and issue the
    request, which is returned as the pending request;
  \<^item> \<open>submit_finish\<close>: lines 55--67 after the request settles: axios either resolves
    with a response whose parsed body is a JSON value, or rejects with an error; the
    body is inspected by \<open>handle_response\<close> (lines 55--61), and the outcome is
    stored by \<open>submit_settle\<close> (line 56, the \<open>catch\<close> at 62--64 and the
    \<open>finally\<close> at 65--67).
  The state these halves write is the state current when they run (React setters),
  not the one the handler's closure captured.
\<close>

datatype form_part = FilePart file_obj | TextPart string

type_synonym form_data = "(string \<times> form_part) list"

datatype transport_outcome = Response jsval | Rejected js_exn

definition build_form_data :: "file_obj \<Rightarrow> string \<Rightarrow> form_data" where
  "build_form_data f jd = [(''resume'', FilePart f), (''job_description'', TextPart jd)]"

definition catch_message :: "js_exn \<Rightarrow> message" where
  "catch_message ex = (case ex of JsError m \<Rightarrow> m | JsThrow v \<Rightarrow> ''An error occurred'')"

definition handle_response :: "jsval \<Rightarrow> js_exn + jsval" where
  "handle_response body =
     (case js_and body (js_get body ''data'') of
        Inl ex \<Rightarrow> Inl ex
      | Inr c \<Rightarrow>
          if js_truthy c then Inr c
          else (case js_get body ''error'' of
                  Inl ex \<Rightarrow> Inl ex
                | Inr e \<Rightarrow>
                    if js_truthy e then Inl (js_new_error e)
                    else Inl (JsError ''Invalid response from server'')))"

fun submit_settle :: "js_exn + jsval \<Rightarrow> view_state \<Rightarrow> view_state" where
  "submit_settle (Inr d) st = st\<lparr>extracted_data := Some d, is_loading := False\<rparr>"
| "submit_settle (Inl ex) st =
     st\<lparr>error := Some (catch_message ex), extracted_data := None, is_loading := False\<rparr>"

definition submit_begin :: "view_state \<Rightarrow> view_state \<times> form_data option" where
  "submit_begin st =
     (let st1 = st\<lparr>is_loading := True, error := None\<rparr>
      in case validate (resume st) (job_description st) of
           Inl m \<Rightarrow> (submit_settle (Inl (JsError m)) st1, None)
         | Inr f \<Rightarrow> (st1, Some (build_form_data f (job_description st))))"

fun submit_finish :: "transport_outcome \<Rightarrow> view_state \<Rightarrow> view_state" where
  "submit_finish (Response body) st = submit_settle (handle_response body) st"
| "submit_finish (Rejected ex) st = submit_settle (Inl ex) st"

declare submit_begin_def [handler_defs] handle_response_def [handler_defs]

subsection \<open>Lemmas\<close>

lemma submit_settle_frame [simp]:
  "resume (submit_settle r st) = resume st"
  "job_description (submit_settle r st) = job_description st"
  "is_loading (submit_settle r st) = False"
  by (cases r; simp)+

lemma submit_finish_frame [simp]:
  "resume (submit_finish out st) = resume st"
  "job_description (submit_finish out st) = job_description st"
  "is_loading (submit_finish out st) = False"
  by (cases out; simp)+

lemma submit_settle_Inr [simp]:
  "extracted_data (submit_settle (Inr d) st) = Some d"
  "error (submit_settle (Inr d) st) = error st"
  by simp_all

lemma submit_settle_Inl [simp]:
  "extracted_data (submit_settle (Inl ex) st) = None"
  "error (submit_settle (Inl ex) st) = Some (catch_message ex)"
  by simp_all

lemma handle_response_Inr_truthy:
  "handle_response body = Inr d \<Longrightarrow> js_truthy d"
  by (auto simp: handle_response_def split: sum.splits if_splits)

lemma handle_response_obj:
  "handle_response (JObj kvs) =
     (if js_truthy (obj_field kvs ''data'') then Inr (obj_field kvs ''data'')
      else if js_truthy (obj_field kvs ''error'') then Inl (js_new_error (obj_field kvs ''error''))
      else Inl (JsError ''Invalid response from server''))"
  by (simp add: handle_response_def js_and_def)

lemma submit_begin_valid:
  "validate (resume st) (job_description st) = Inr f \<Longrightarrow>
     submit_begin st = (st\<lparr>is_loading := True, error := None\<rparr>,
                        Some (build_form_data f (job_description st)))"
  by (simp add: submit_begin_def)

lemma submit_begin_invalid:
  "validate (resume st) (job_description st) = Inl m \<Longrightarrow>
     submit_begin st = (st\<lparr>error := Some m, extracted_data := None, is_loading := False\<rparr>, None)"
  by (simp add: submit_begin_def catch_message_def)

lemma catch_message_new_error_str [simp]:
  "s \<noteq> [] \<Longrightarrow> catch_message (js_new_error (JStr s)) = s"
  by (simp add: js_new_error_def catch_message_def)


subsection \<open>Behaviour of each branch\<close>

text \<open>
  C5 (error path): a response body that is an object without a truthy \<open>data\<close> field
  and with a non-empty string \<open>error\<close> field ends the submission with that string as
  the error message, no result, and the loading flag cleared.
\<close>

theorem finish_server_error:
  assumes "\<not> js_truthy (obj_field kvs ''data'')" and "obj_field kvs ''error'' = JStr s"
    and "s \<noteq> []"
  shows "error (submit_finish (Response (JObj kvs)) st) = Some s \<and>
    extracted_data (submit_finish (Response (JObj kvs)) st) = None \<and>
    \<not> is_loading (submit_finish (Response (JObj kvs)) st)"
  using assms by (simp add: handle_response_obj)

theorem finish_server_error_witness:
  "error (submit_finish (Response (JObj [(''error'', JStr ''PDF unreadable'')])) init_view) =
     Some ''PDF unreadable'' \<and>
   extracted_data (submit_finish (Response (JObj [(''error'', JStr ''PDF unreadable'')])) init_view) = None \<and>
   \<not> is_loading (submit_finish (Response (JObj [(''error'', JStr ''PDF unreadable'')])) init_view)"
  by (rule finish_server_error) (simp_all add: obj_field_def)

text \<open>
  C6 (error path): an object body with neither a truthy \<open>data\<close> nor a truthy
  \<open>error\<close> field ends the submission with the message
  \<open>Invalid response from server\<close> and no result.
\<close>

theorem finish_malformed:
  assumes "\<not> js_truthy (obj_field kvs ''data'')" and "\<not> js_truthy (obj_field kvs ''error'')"
  shows "error (submit_finish (Response (JObj kvs)) st) = Some ''Invalid response from server'' \<and>
    extracted_data (submit_finish (Response (JObj kvs)) st) = None \<and>
    \<not> is_loading (submit_finish (Response (JObj kvs)) st)"
  using assms by (simp add: handle_response_obj catch_message_def)

theorem finish_malformed_witness:
  "error (submit_finish (Response (JObj [])) init_view) = Some ''Invalid response from server'' \<and>
   extracted_data (submit_finish (Response (JObj [])) init_view) = None \<and>
   \<not> is_loading (submit_finish (Response (JObj [])) init_view)"
  by (rule finish_malformed) (simp_all add: obj_field_def)

text \<open>
  C7 (divergence from the specification): a body that parses to \<open>null\<close> is not
  reported as a malformed response: \<open>response.data.error\<close> throws a
  \<open>TypeError\<close>, and its engine message is what the user sees.
\<close>

theorem finish_null_body:
  "error (submit_finish (Response JNull) st) =
     Some (''Cannot read properties of null (reading '' @ [apostrophe] @ ''error'' @ [apostrophe] @ '')'') \<and>
   error (submit_finish (Response JNull) st) \<noteq> Some ''Invalid response from server'' \<and>
   extracted_data (submit_finish (Response JNull) st) = None"
  by (simp add: handle_response_def js_and_def read_type_error_def catch_message_def apostrophe_def)

text \<open>
  C8 (error path): when the request itself fails (axios rejects with an \<open>Error\<close>,
  for a network failure or a non-2xx status), the error's message is shown, any
  result is dropped and the loading flag is cleared; a thrown non-\<open>Error\<close> value
  would show \<open>An error occurred\<close>.
\<close>

theorem finish_rejected:
  "error (submit_finish (Rejected (JsError m)) st) = Some m \<and>
   extracted_data (submit_finish (Rejected (JsError m)) st) = None \<and>
   \<not> is_loading (submit_finish (Rejected (JsError m)) st) \<and>
   error (submit_finish (Rejected (JsThrow v)) st) = Some ''An error occurred''"
  by (simp add: catch_message_def)

text \<open>
  C9 (error path): a submission without a resume fails in the same tick with
  \<open>Please upload a resume\<close>, issues no request, drops any earlier result and
  leaves the loading flag cleared; one with a resume but an empty job text fails the
  same way with \<open>Please enter a job description\<close>.
\<close>

theorem begin_guard_failures:
  assumes "resume st = None \<or> job_description st = []"
  shows "snd (submit_begin st) = None \<and>
    error (fst (submit_begin st)) =
      Some (if resume st = None then ''Please upload a resume'' else ''Please enter a job description'') \<and>
    extracted_data (fst (submit_begin st)) = None \<and> \<not> is_loading (fst (submit_begin st))"
  using assms by (auto simp: submit_begin_def validate_def catch_message_def split: option.splits)

theorem begin_guard_failures_witness:
  "snd (submit_begin init_view) = None \<and>
   error (fst (submit_begin init_view)) = Some ''Please upload a resume'' \<and>
   extracted_data (fst (submit_begin init_view)) = None \<and> \<not> is_loading (fst (submit_begin init_view))"
  using begin_guard_failures [of init_view] by (simp add: init_view_def)

text \<open>
  C4 (functional): with a resume and a non-empty job text, the first half of the
  handler sets the loading flag, clears the error, keeps the fields it does not
  write, and issues one request whose body has exactly the two parts \<open>resume\<close> (the
  held file) and \<open>job_description\<close> (the text).
\<close>

theorem begin_valid_request:
  assumes "resume st = Some f" and "job_description st \<noteq> []"
  shows "submit_begin st = (st\<lparr>is_loading := True, error := None\<rparr>,
     Some [(''resume'', FilePart f), (''job_description'', TextPart (job_description st))])"
  using assms by (simp add: submit_begin_valid validate_Inr_iff build_form_data_def)

theorem begin_valid_request_witness:
  "submit_begin (init_view\<lparr>resume := Some \<lparr>file_name = ''cv.pdf'', file_type = ''application/pdf''\<rparr>,
       job_description := ''SQL''\<rparr>) =
   (init_view\<lparr>resume := Some \<lparr>file_name = ''cv.pdf'', file_type = ''application/pdf''\<rparr>,
       job_description := ''SQL'', is_loading := True, error := None\<rparr>,
    Some [(''resume'', FilePart \<lparr>file_name = ''cv.pdf'', file_type = ''application/pdf''\<rparr>),
          (''job_description'', TextPart ''SQL'')])"
  using begin_valid_request [of "init_view\<lparr>resume := Some \<lparr>file_name = ''cv.pdf'',
      file_type = ''application/pdf''\<rparr>, job_description := ''SQL''\<rparr>"]
  by (simp add: init_view_def)


text \<open>
  C24 (error path): a server that reports its error as a nonzero integer below
  \<open>2^53\<close> in magnitude (an HTTP-like code, which its JSON literal denotes exactly)
  ends the submission showing the integer's decimal digits, with a minus sign when
  it is negative: \<open>new Error(n)\<close> converts the number by \<open>Number::toString\<close>, which
  writes integers below \<open>10^21\<close> without an exponent.
\<close>

theorem finish_numeric_error:
  assumes "i \<noteq> 0" and "\<bar>i\<bar> < 2 ^ 53"
  shows "error (submit_finish (Response (JObj [(''error'', JNum (of_int i))])) st) =
      Some ((if i < 0 then ''-'' else []) @ nat_to_dec (nat \<bar>i\<bar>)) \<and>
    extracted_data (submit_finish (Response (JObj [(''error'', JNum (of_int i))])) st) = None"
proof -
  have "\<bar>i\<bar> < 10 ^ 21" using assms(2) by simp
  with assms(1) have "js_number_string (of_int i) = (if i < 0 then ''-'' else []) @ nat_to_dec (nat \<bar>i\<bar>)"
    by (rule js_number_string_int)
  with assms(1) show ?thesis
    by (simp add: handle_response_obj obj_field_def js_new_error_def catch_message_def)
qed

theorem finish_numeric_error_witness:
  "error (submit_finish (Response (JObj [(''error'', JNum (of_int (-404)))])) init_view) =
     Some ((if (-404 :: int) < 0 then ''-'' else []) @ nat_to_dec (nat \<bar>-404\<bar>)) \<and>
   extracted_data (submit_finish (Response (JObj [(''error'', JNum (of_int (-404)))])) init_view) = None"
  by (rule finish_numeric_error) simp_all

end
