(* ===== verification/Render_Js.thy ===== *)
theory Render_Js
  imports Submission
begin

text \<open>
  The result panel of App.tsx (lines 153--193) as JavaScript and React evaluate it on
  the stored value, whatever its shape. JSX evaluates the children in source order:
  \<open>renderPieChart()\<close> (line 157, which never throws: its guard uses optional chaining
  and its arithmetic cannot fail on JSON values), the three skill lines (164--176,
  whose \<open>.join\<close> throws when a list is missing or not an array), then the four
  fields of the "Extracted Information" panel (186--189). React then renders each
  field as a child (\<open>react_child\<close>): a string as itself, a number as \<open>String(n)\<close>,
  \<open>null\<close>, \<open>undefined\<close> and booleans as nothing, an array as its children in order,
  and an object by throwing. The keys React lists in that error are the object's
  keys in insertion order; the reordering JavaScript applies to array-index keys is
  not modelled. The typed rendering of the same lines is \<open>render_skill_list\<close> and
  \<open>extracted_info\<close>.
\<close>

definition render_skill_list :: "string list \<Rightarrow> string" where
  "render_skill_list xs = (let s = join_sep '', '' xs in if s = [] then ''None'' else s)"

definition skill_list_js :: "jsval \<Rightarrow> string \<Rightarrow> js_exn + string" where
  "skill_list_js d k =
     (case js_get d ''skillMatch'' of
        Inl ex \<Rightarrow> Inl ex
      | Inr sm \<Rightarrow>
          (case js_get sm k of
             Inl ex \<Rightarrow> Inl ex
           | Inr l \<Rightarrow>
               (case js_join_call l '', '' of
                  Inl ex \<Rightarrow> Inl ex
                | Inr s \<Rightarrow> Inr (if s = [] then ''None'' else s))))"

definition match_details_js :: "jsval \<Rightarrow> js_exn + string list" where
  "match_details_js d =
     (case skill_list_js d ''matching'' of
        Inl ex \<Rightarrow> Inl ex
      | Inr m \<Rightarrow>
          (case skill_list_js d ''missing'' of
             Inl ex \<Rightarrow> Inl ex
           | Inr mi \<Rightarrow>
               (case skill_list_js d ''additional'' of
                  Inl ex \<Rightarrow> Inl ex
                | Inr a \<Rightarrow> Inr [m, mi, a])))"

definition extracted_info :: "extraction_result \<Rightarrow> (string \<times> string) list" where
  "extracted_info r =
     [(''Name:'', name r), (''Education:'', education r), (''Experience:'', experience r),
      (''Skills:'', skills r)]"

definition react_object_error :: "(string \<times> jsval) list \<Rightarrow> js_exn" where
  "react_object_error kvs =
     JsError (''Objects are not valid as a React child (found: object with keys {'' @
       join_sep '', '' (rev (remdups (rev (map fst kvs)))) @
       ''}). If you meant to render a collection of children, use an array instead.'')"

fun react_child :: "jsval \<Rightarrow> js_exn + string"
  and react_children :: "jsval list \<Rightarrow> js_exn + string" where
  "react_child (JStr s) = Inr s"
| "react_child (JNum n) = Inr (js_number_string n)"
| "react_child (JBool b) = Inr []"
| "react_child JNull = Inr []"
| "react_child JUndefined = Inr []"
| "react_child (JArr vs) = react_children vs"
| "react_child (JObj kvs) = Inl (react_object_error kvs)"
| "react_children [] = Inr []"
| "react_children (v # vs) =
     (case react_child v of
        Inl ex \<Rightarrow> Inl ex
      | Inr a \<Rightarrow> (case react_children vs of Inl ex \<Rightarrow> Inl ex | Inr b \<Rightarrow> Inr (a @ b)))"

definition info_fields :: "(string \<times> string) list" where
  "info_fields = [(''Name:'', ''name''), (''Education:'', ''education''),
     (''Experience:'', ''experience''), (''Skills:'', ''skills'')]"

fun info_js :: "jsval \<Rightarrow> (string \<times> string) list \<Rightarrow> js_exn + (string \<times> string) list" where
  "info_js d [] = Inr []"
| "info_js d ((lbl, k) # fs) =
     (case js_get d k of
        Inl ex \<Rightarrow> Inl ex
      | Inr v \<Rightarrow>
          (case react_child v of
             Inl ex \<Rightarrow> Inl ex
           | Inr t \<Rightarrow> (case info_js d fs of Inl ex \<Rightarrow> Inl ex | Inr rest \<Rightarrow> Inr ((lbl, t) # rest))))"

definition chart_shown_js :: "jsval \<Rightarrow> bool" where
  "chart_shown_js d = (case js_get d ''skillMatch'' of Inl ex \<Rightarrow> False | Inr sm \<Rightarrow> js_truthy sm)"

type_synonym raw_panel = "bool \<times> string list \<times> (string \<times> string) list"

definition render_result_js :: "jsval \<Rightarrow> js_exn + raw_panel" where
  "render_result_js d =
     (case match_details_js d of
        Inl ex \<Rightarrow> Inl ex
      | Inr ds \<Rightarrow>
          (case info_js d info_fields of
             Inl ex \<Rightarrow> Inl ex
           | Inr info \<Rightarrow> Inr (chart_shown_js d, ds, info)))"

definition sample_result :: "real \<Rightarrow> extraction_result" where
  "sample_result p = \<lparr>name = ''Ada'', skills = ''Python, SQL'', education = ''BSc'',
     experience = ''3 years'', dob = ''1990-01-01'',
     skill_match = \<lparr>matching = [''Python''], missing = [''Go''], additional = [''SQL''],
       match_percentage = p\<rparr>\<rparr>"

definition typed_panel :: "extraction_result \<Rightarrow> raw_panel" where
  "typed_panel r =
     (True, [render_skill_list (matching (skill_match r)), render_skill_list (missing (skill_match r)),
        render_skill_list (additional (skill_match r))], extracted_info r)"

definition nested_name_result :: jsval where
  "nested_name_result = JObj
     [(''name'', JObj [(''first'', JStr ''Ada''), (''last'', JStr ''Lovelace'')]),
      (''skillMatch'', JObj [(''matching'', JArr []), (''missing'', JArr []), (''additional'', JArr []),
         (''matchPercentage'', JNum 0)])]"

subsection \<open>Lemmas\<close>

lemma skill_list_js_encode:
  "skill_list_js (encode_result r) ''matching'' = Inr (render_skill_list (matching (skill_match r)))"
  "skill_list_js (encode_result r) ''missing'' = Inr (render_skill_list (missing (skill_match r)))"
  "skill_list_js (encode_result r) ''additional'' = Inr (render_skill_list (additional (skill_match r)))"
  by (simp_all add: skill_list_js_def render_skill_list_def Let_def)


lemma skill_list_js_decoded:
  assumes "decode_skill_match (obj_field kvs ''skillMatch'') = Some sm"
  shows "skill_list_js (JObj kvs) ''matching'' = Inr (render_skill_list (matching sm)) \<and>
    skill_list_js (JObj kvs) ''missing'' = Inr (render_skill_list (missing sm)) \<and>
    skill_list_js (JObj kvs) ''additional'' = Inr (render_skill_list (additional sm)) \<and>
    js_truthy (obj_field kvs ''skillMatch'')"
  using decode_skill_match_Some [OF assms]
  by (auto simp: skill_list_js_def render_skill_list_def Let_def)

text \<open>
  C22 (type soundness): a stored value that has the \<open>ExtractionResult\<close> shape (with
  any further fields) never makes the result panel throw: JavaScript and React
  render it as the typed rendering of the decoded record, with the chart shown.
\<close>

theorem render_result_js_typed:
  assumes "decode_result d = Some r"
  shows "render_result_js d = Inr (typed_panel r)"
proof -
  obtain kvs where d: "d = JObj kvs"
    and f: "obj_field kvs ''name'' = JStr (name r)" "obj_field kvs ''skills'' = JStr (skills r)"
      "obj_field kvs ''education'' = JStr (education r)"
      "obj_field kvs ''experience'' = JStr (experience r)"
    and sm: "decode_skill_match (obj_field kvs ''skillMatch'') = Some (skill_match r)"
    using decode_result_Some [OF assms] by blast
  have "match_details_js d = Inr [render_skill_list (matching (skill_match r)),
      render_skill_list (missing (skill_match r)), render_skill_list (additional (skill_match r))]"
    and "chart_shown_js d"
    using skill_list_js_decoded [OF sm] by (simp_all add: d match_details_js_def chart_shown_js_def)
  moreover have "info_js d info_fields = Inr (extracted_info r)"
    by (simp add: d f info_fields_def extracted_info_def)
  ultimately show ?thesis by (simp add: render_result_js_def typed_panel_def)
qed

theorem render_result_js_typed_witness:
  "render_result_js (encode_result (sample_result 40)) = Inr (typed_panel (sample_result 40))"
  by (rule render_result_js_typed)
    (simp add: sample_result_def encode_result_def encode_skill_match_def obj_field_def)

text \<open>
  C23 (error path): a stored object whose skill lists are well formed but whose
  \<open>name\<close> is an object passes the response check and the three skill lines, and
  then makes React throw when it renders the field (line 186), naming the object's
  keys; such a value does not have the \<open>ExtractionResult\<close> shape, so the typed
  rendering does not apply.
\<close>

theorem object_child_breaks_render:
  assumes "decode_skill_match (obj_field kvs ''skillMatch'') = Some sm"
    and "obj_field kvs ''name'' = JObj nkvs"
  shows "decode_result (JObj kvs) = None \<and>
    match_details_js (JObj kvs) = Inr [render_skill_list (matching sm),
      render_skill_list (missing sm), render_skill_list (additional sm)] \<and>
    render_result_js (JObj kvs) = Inl (react_object_error nkvs)"
proof -
  have "match_details_js (JObj kvs) = Inr [render_skill_list (matching sm),
      render_skill_list (missing sm), render_skill_list (additional sm)]"
    using skill_list_js_decoded [OF assms(1)] by (simp add: match_details_js_def)
  moreover have "info_js (JObj kvs) info_fields = Inl (react_object_error nkvs)"
    using assms(2) by (simp add: info_fields_def)
  ultimately show ?thesis using assms(2) by (simp add: render_result_js_def)
qed

theorem object_child_breaks_render_witness:
  "decode_result nested_name_result = None \<and>
   match_details_js nested_name_result = Inr [render_skill_list [], render_skill_list [],
     render_skill_list []] \<and>
   render_result_js nested_name_result =
     Inl (react_object_error [(''first'', JStr ''Ada''), (''last'', JStr ''Lovelace'')])"
  using object_child_breaks_render
      [of "[(''name'', JObj [(''first'', JStr ''Ada''), (''last'', JStr ''Lovelace'')]),
           (''skillMatch'', JObj [(''matching'', JArr []), (''missing'', JArr []),
              (''additional'', JArr []), (''matchPercentage'', JNum 0)])]"
        "\<lparr>matching = [], missing = [], additional = [], match_percentage = 0\<rparr>"
        "[(''first'', JStr ''Ada''), (''last'', JStr ''Lovelace'')]"]
  by (simp add: nested_name_result_def obj_field_def)

end
