(* ===== verification/Chart.thy ===== *)
theory Chart
  imports Render_Js
begin

text \<open>
  The presentation half of App.tsx: \<open>renderPieChart\<close> (lines 70--100), the three
  skill lists of the "Match Details" panel (lines 161--178), the "Extracted
  Information" panel (lines 183--191) and the page around them (lines 102--197): the
  file name under the drop zone, the submit button with its \<open>disabled\<close> guard and
  label, and the error box. What the page shows is a value (\<open>page_view\<close>); the
  chart widget and the HTML are not modelled.

  The result panel is shown for the stored JSON value. When it has the
  \<open>ExtractionResult\<close> shape the panel is computed from the decoded record. The
  TypeScript type is not checked at run time, so \<open>match_details_js\<close> also follows
  lines 164--176 on the raw value, with property reads and \<open>join\<close> as JavaScript
  performs them, which is where a value of another shape makes the render throw.
  \<open>pie_data_js\<close> computes the chart's dataset on the raw value in the same way.
\<close>

record pie_chart =
  chart_labels :: "string list"
  chart_values :: "real list"
  chart_colors :: "string list"
  chart_border :: nat

definition render_pie_chart :: "extraction_result option \<Rightarrow> pie_chart option" where
  "render_pie_chart r =
     (case r of
        None \<Rightarrow> None
      | Some x \<Rightarrow>
          Some \<lparr>chart_labels = [''Matching Skills'', ''Missing Skills''],
                chart_values = [match_percentage (skill_match x), 100 - match_percentage (skill_match x)],
                chart_colors = [''#4CAF50'', ''#FF5252''],
                chart_border = 0\<rparr>)"

text \<open>
  The same dataset as \<open>renderPieChart\<close> computes it on the stored value of any shape
  (lines 71--80): \<open>!extractedData?.skillMatch\<close> returns no chart for a nullish value
  or a falsy \<open>skillMatch\<close>; otherwise the first value is \<open>matchPercentage\<close> as it
  is stored and the second is \<open>100 - matchPercentage\<close>, which converts it by
  \<open>ToNumber\<close>.
\<close>

definition pie_data_js :: "jsval \<Rightarrow> js_exn + (jsval \<times> js_number) option" where
  "pie_data_js d =
     (if d = JNull \<or> d = JUndefined then Inr None
      else (case js_get d ''skillMatch'' of
              Inl ex \<Rightarrow> Inl ex
            | Inr sm \<Rightarrow>
                if \<not> js_truthy sm then Inr None
                else (case js_get sm ''matchPercentage'' of
                        Inl ex \<Rightarrow> Inl ex
                      | Inr p \<Rightarrow> Inr (Some (p, js_minus (JsNum 100) (js_to_number p))))))"

datatype result_panel =
    Panel "pie_chart option" "string list" "(string \<times> string) list"
  | Untyped "js_exn + raw_panel"

record page_view =
  shown_file :: "string option"
  button_disabled :: bool
  button_label :: string
  error_box :: "string option"
  result :: "result_panel option"

definition render_view :: "view_state \<Rightarrow> page_view" where
  "render_view st =
     \<lparr>shown_file = map_option file_name (resume st),
      button_disabled = submit_disabled st,
      button_label = (if is_loading st then ''Analyzing...'' else ''Analyze Skills''),
      error_box = (case error st of Some m \<Rightarrow> if m = [] then None else Some m | None \<Rightarrow> None),
      result =
        (case extracted_data st of
           None \<Rightarrow> None
         | Some d \<Rightarrow>
             Some (case decode_result d of
                     Some r \<Rightarrow> Panel (render_pie_chart (Some r))
                       [render_skill_list (matching (skill_match r)),
                        render_skill_list (missing (skill_match r)),
                        render_skill_list (additional (skill_match r))]
                       (extracted_info r)
                   | None \<Rightarrow> Untyped (render_result_js d)))\<rparr>"

subsection \<open>Lemmas\<close>

text \<open>
  C14 (functional): with a result, the chart has the two categories
  \<open>Matching Skills\<close> and \<open>Missing Skills\<close> with the values \<open>p\<close> and \<open>100 - p\<close> for the
  match percentage \<open>p\<close>, which sum to exactly 100; without a result there is no chart.
\<close>

theorem chart_two_slices:
  "render_pie_chart None = None \<and>
   (\<exists>c. render_pie_chart (Some r) = Some c \<and>
      chart_labels c = [''Matching Skills'', ''Missing Skills''] \<and>
      chart_values c = [match_percentage (skill_match r), 100 - match_percentage (skill_match r)] \<and>
      sum_list (chart_values c) = 100)"
  by (simp add: render_pie_chart_def)

text \<open>
  C15 (specification gap): the code neither clamps nor rejects a percentage above
  100; the "Missing Skills" slice then is negative.
\<close>

theorem chart_negative_slice:
  assumes "100 < match_percentage (skill_match r)"
  shows "\<exists>c. render_pie_chart (Some r) = Some c \<and> chart_values c ! 1 < 0"
  using assms by (simp add: render_pie_chart_def)

theorem chart_negative_slice_witness:
  "\<exists>c. render_pie_chart (Some (sample_result 120)) = Some c \<and> chart_values c ! 1 < 0"
  by (rule chart_negative_slice) (simp add: sample_result_def)


text \<open>
  C28 (refinement): on a value of the \<open>ExtractionResult\<close> shape the dataset computed
  on the raw value is the typed chart's: the stored number and the number
  \<open>100 - p\<close>, the two values of \<open>render_pie_chart\<close>.
\<close>

theorem pie_data_typed:
  assumes "decode_result d = Some r"
  shows "\<exists>c. render_pie_chart (Some r) = Some c \<and>
    pie_data_js d = Inr (Some (JNum (chart_values c ! 0), JsNum (chart_values c ! 1)))"
proof -
  obtain kvs where d: "d = JObj kvs"
    and sm: "decode_skill_match (obj_field kvs ''skillMatch'') = Some (skill_match r)"
    using decode_result_Some [OF assms] by blast
  obtain kvs' where "obj_field kvs ''skillMatch'' = JObj kvs'"
    and "obj_field kvs' ''matchPercentage'' = JNum (match_percentage (skill_match r))"
    using decode_skill_match_Some [OF sm] by blast
  then show ?thesis by (simp add: d pie_data_js_def render_pie_chart_def)
qed

theorem pie_data_typed_witness:
  "\<exists>c. render_pie_chart (Some (sample_result 40)) = Some c \<and>
    pie_data_js (encode_result (sample_result 40)) =
      Inr (Some (JNum (chart_values c ! 0), JsNum (chart_values c ! 1)))"
  by (rule pie_data_typed)
    (simp add: sample_result_def encode_result_def encode_skill_match_def obj_field_def comp_def)



end
