(* ===== verification/App_Machine.thy ===== *)
theory App_Machine
  imports Chart
begin

text \<open>
  The whole component as a state machine. Its state is the view state plus the one
  thing the JavaScript runtime holds besides it: the suspended \<open>handleSubmit\<close>,
  i.e. the request in flight (\<open>pending\<close>). An event is what can happen next:
  a drop on the dropzone (the library filters the files and calls \<open>onDrop\<close>), an
  edit of the textarea, a click on the submit button (dropped while the button is
  disabled, line 140), or the settling of the request in flight with a response or
  a failure. Which event comes next, and what the server answers, is not determined:
  reachability quantifies over every sequence.

  Next to it, \<open>spec_step\<close> is the submission state machine of the specification
  (sections 3, 4.2 and 7: Idle, InFlight, Succeeded, Failed), and \<open>abs_state\<close> reads
  a state of the code as one of those states.
\<close>

record app_state =
  view :: view_state
  pending :: "form_data option"

datatype event =
    Drop "file_obj list"
  | EditJob string
  | Click
  | Settle transport_outcome

definition init_app :: app_state where
  "init_app = \<lparr>view = init_view, pending = None\<rparr>"

fun app_step :: "app_state \<Rightarrow> event \<Rightarrow> app_state" where
  "app_step s (Drop fs) = s\<lparr>view := on_drop (dropzone_accepted fs) (view s)\<rparr>"
| "app_step s (EditJob t) = s\<lparr>view := on_job_change t (view s)\<rparr>"
| "app_step s Click =
     (if submit_disabled (view s) then s
      else (case submit_begin (view s) of (v, req) \<Rightarrow> \<lparr>view = v, pending = req\<rparr>))"
| "app_step s (Settle out) =
     (case pending s of
        None \<Rightarrow> s
      | Some req \<Rightarrow> \<lparr>view = submit_finish out (view s), pending = None\<rparr>)"

fun app_run :: "app_state \<Rightarrow> event list \<Rightarrow> app_state" where
  "app_run s [] = s"
| "app_run s (e # es) = app_run (app_step s e) es"

inductive reachable :: "app_state \<Rightarrow> bool" where
  init: "reachable init_app"
| step: "reachable s \<Longrightarrow> reachable (app_step s e)"

definition app_inv :: "app_state \<Rightarrow> bool" where
  "app_inv s \<longleftrightarrow>
     (is_loading (view s) \<longleftrightarrow> pending s \<noteq> None) \<and>
     (\<forall>f. resume (view s) = Some f \<longrightarrow> pdf_accepted f) \<and>
     (\<forall>req. pending s = Some req \<longrightarrow>
        (\<exists>f t. req = build_form_data f t \<and> pdf_accepted f \<and> t \<noteq> [])) \<and>
     (error (view s) \<noteq> None \<longrightarrow> extracted_data (view s) = None) \<and>
     (is_loading (view s) \<longrightarrow> error (view s) = None) \<and>
     (\<forall>d. extracted_data (view s) = Some d \<longrightarrow> js_truthy d)"

datatype submission_state = Idle | InFlight | Succeeded jsval | Failed message

definition abs_state :: "app_state \<Rightarrow> submission_state" where
  "abs_state s =
     (if is_loading (view s) then InFlight
      else case error (view s) of
             Some m \<Rightarrow> Failed m
           | None \<Rightarrow> (case extracted_data (view s) of Some d \<Rightarrow> Succeeded d | None \<Rightarrow> Idle))"

inductive spec_step :: "submission_state \<Rightarrow> submission_state \<Rightarrow> bool" where
  stutter: "spec_step a a"
| submit: "a \<noteq> InFlight \<Longrightarrow> spec_step a InFlight"
| reject: "a \<noteq> InFlight \<Longrightarrow> spec_step a (Failed m)"
| succeed: "spec_step InFlight (Succeeded d)"
| fail: "spec_step InFlight (Failed m)"
| rearm: "spec_step (Failed m) Idle"

inductive_cases spec_step_InFlightE: "spec_step InFlight b"

definition sample_pdf :: file_obj where
  "sample_pdf = \<lparr>file_name = ''cv.pdf'', file_type = ''application/pdf''\<rparr>"

definition in_flight_run :: "event list" where
  "in_flight_run = [Drop [sample_pdf], EditJob ''SQL'', Click]"


subsection \<open>The invariant\<close>

lemma app_inv_init: "app_inv init_app"
  by (simp add: app_inv_def init_app_def init_view_def)

lemma app_inv_drop: "app_inv s \<Longrightarrow> app_inv (app_step s (Drop fs))"
  by (auto simp: app_inv_def on_drop_def dest: dropzone_accepted_Cons_pdf split: list.splits)

lemma app_inv_edit: "app_inv s \<Longrightarrow> app_inv (app_step s (EditJob t))"
  by (simp add: app_inv_def)

lemma app_inv_click: "app_inv s \<Longrightarrow> app_inv (app_step s Click)"
  by (auto simp: app_inv_def submit_disabled_def submit_begin_def validate_def
      split: option.splits)

lemma submit_finish_keeps:
  assumes "error st = None"
  shows "(error (submit_finish out st) \<noteq> None \<longrightarrow> extracted_data (submit_finish out st) = None) \<and>
    (\<forall>d. extracted_data (submit_finish out st) = Some d \<longrightarrow>
       js_truthy d \<or> extracted_data st = Some d)"
proof (cases out)
  case (Response body)
  with assms show ?thesis
    by (cases "handle_response body") (auto dest: handle_response_Inr_truthy)
qed (use assms in simp)

lemma app_inv_settle: "app_inv s \<Longrightarrow> app_inv (app_step s (Settle out))"
proof (cases "pending s")
  case (Some req)
  assume inv: "app_inv s"
  then have "error (view s) = None" using Some by (simp add: app_inv_def)
  then have "(error (submit_finish out (view s)) \<noteq> None \<longrightarrow>
      extracted_data (submit_finish out (view s)) = None) \<and>
    (\<forall>d. extracted_data (submit_finish out (view s)) = Some d \<longrightarrow>
       js_truthy d \<or> extracted_data (view s) = Some d)"
    by (rule submit_finish_keeps)
  with inv Some show ?thesis
    by (cases out) (auto simp: app_inv_def)
qed simp

lemma app_inv_step: "app_inv s \<Longrightarrow> app_inv (app_step s e)"
  by (cases e) (simp_all del: app_step.simps add: app_inv_drop app_inv_edit app_inv_click
      app_inv_settle)

lemma reachable_app_inv: "reachable s \<Longrightarrow> app_inv s"
  by (induction rule: reachable.induct) (auto intro: app_inv_init app_inv_step)

lemma reachable_run: "reachable s \<Longrightarrow> reachable (app_run s es)"
  by (induction es arbitrary: s) (auto intro: reachable.step)

lemmas app_inv_facts = reachable_app_inv [unfolded app_inv_def]


lemma reachable_in_flight:
  "reachable (app_run init_app in_flight_run)"
  by (rule reachable_run [OF reachable.init])

lemma in_flight_state:
  "app_run init_app in_flight_run =
     \<lparr>view = \<lparr>resume = Some sample_pdf, job_description = ''SQL'', extracted_data = None,
        is_loading = True, error = None\<rparr>,
      pending = Some (build_form_data sample_pdf ''SQL'')\<rparr>"
  by (simp add: in_flight_run_def init_app_def init_view_def on_drop_def on_job_change_def
      dropzone_accepted_def max_files_def pdf_accepted_def accept_mime_def sample_pdf_def
      submit_disabled_def submit_begin_def validate_def)

subsection \<open>Refinement of the specification's submission machine\<close>

lemma abs_state_loading [simp]: "is_loading (view s) \<Longrightarrow> abs_state s = InFlight"
  by (simp add: abs_state_def)

lemma abs_state_idle_side: "\<not> is_loading (view s) \<Longrightarrow> abs_state s \<noteq> InFlight"
  by (auto simp: abs_state_def split: option.splits)

lemma refine_drop: "app_inv s \<Longrightarrow> spec_step (abs_state s) (abs_state (app_step s (Drop fs)))"
  by (auto simp: abs_state_def app_inv_def intro: spec_step.intros split: option.splits)

lemma abs_state_edit: "abs_state (app_step s (EditJob t)) = abs_state s"
  by (simp add: abs_state_def split: option.splits)

lemma refine_edit: "spec_step (abs_state s) (abs_state (app_step s (EditJob t)))"
  by (simp only: abs_state_edit spec_step.stutter)

lemma refine_click: "spec_step (abs_state s) (abs_state (app_step s Click))"
proof (cases "submit_disabled (view s)")
  case False
  then obtain f where "validate (resume (view s)) (job_description (view s)) = Inr f"
    by (auto simp: submit_disabled_def validate_Inr_iff)
  with False show ?thesis
    by (simp add: submit_begin_valid abs_state_idle_side submit_disabled_def spec_step.submit)
qed (simp add: spec_step.stutter)

lemma refine_settle:
  assumes "app_inv s"
  shows "spec_step (abs_state s) (abs_state (app_step s (Settle out)))"
proof (cases "pending s")
  case (Some req)
  with assms have "is_loading (view s)" and "error (view s) = None"
    by (simp_all add: app_inv_def)
  moreover have "abs_state \<lparr>view = submit_finish out (view s), pending = None\<rparr> \<in>
      range Succeeded \<union> range Failed"
    using \<open>error (view s) = None\<close>
    by (cases out; cases "handle_response (case out of Response b \<Rightarrow> b | _ \<Rightarrow> JNull)")
      (auto simp: abs_state_def)
  ultimately show ?thesis
    using Some by (auto intro: spec_step.succeed spec_step.fail)
qed (simp add: spec_step.stutter)


lemma refine_step:
  assumes inv: "app_inv s"
  shows "spec_step (abs_state s) (abs_state (app_step s e))"
proof (cases e)
  case (Drop fs)
  then show ?thesis using refine_drop [OF inv] by simp
next
  case (EditJob t)
  then show ?thesis using refine_edit by simp
next
  case Click
  then show ?thesis using refine_click by simp
next
  case (Settle out)
  then show ?thesis using refine_settle [OF inv] by simp
qed

subsection \<open>Properties of the state machine\<close>

text \<open>
  C2 (safety, concurrency guard): while a request is in flight the button is
  disabled, so a second click changes nothing, neither the state nor the outcome
  the first request later produces.
\<close>

theorem click_in_flight_noop:
  assumes "is_loading (view s)"
  shows "app_step s Click = s \<and>
    app_step (app_step s Click) (Settle out) = app_step s (Settle out)"
  using assms by (simp add: submit_disabled_def)

theorem click_in_flight_noop_witness:
  "app_step (app_run init_app in_flight_run) Click = app_run init_app in_flight_run \<and>
   app_step (app_step (app_run init_app in_flight_run) Click) (Settle (Rejected (JsError ''Network Error''))) =
     app_step (app_run init_app in_flight_run) (Settle (Rejected (JsError ''Network Error'')))"
  by (rule click_in_flight_noop) (simp add: in_flight_state)

text \<open>
  C3 (invariant): in every reachable state the loading flag is set exactly when a
  request is in flight, and a request in flight always carries a file the dropzone
  accepted as a PDF and a non-empty job text, in the parts \<open>resume\<close> and
  \<open>job_description\<close>.
\<close>

theorem reachable_in_flight_request:
  assumes "reachable s"
  shows "(is_loading (view s) \<longleftrightarrow> pending s \<noteq> None) \<and>
    (\<forall>req. pending s = Some req \<longrightarrow>
       (\<exists>f t. req = [(''resume'', FilePart f), (''job_description'', TextPart t)] \<and>
              pdf_accepted f \<and> t \<noteq> []))"
  using app_inv_facts [OF assms] by (auto simp: build_form_data_def)

theorem reachable_in_flight_request_witness:
  "reachable (app_run init_app in_flight_run) \<and>
   is_loading (view (app_run init_app in_flight_run)) \<and>
   (\<exists>f t. pending (app_run init_app in_flight_run) =
      Some [(''resume'', FilePart f), (''job_description'', TextPart t)] \<and> pdf_accepted f \<and> t \<noteq> [])"
  using reachable_in_flight_request [OF reachable_in_flight] reachable_in_flight
  by (simp add: in_flight_state)

text \<open>
  C10 (invariant): the held resume is always a file the dropzone accepted as a PDF.
\<close>

theorem reachable_resume_pdf:
  assumes "reachable s" and "resume (view s) = Some f"
  shows "pdf_accepted f"
  using app_inv_facts [OF assms(1)] assms(2) by blast

theorem reachable_resume_pdf_witness: "pdf_accepted sample_pdf"
  by (rule reachable_resume_pdf [OF reachable_in_flight]) (simp add: in_flight_state)

text \<open>
  C16 (safety, no partial results): in every reachable state an error message and a
  result are never shown together, and no error is shown while a request is in
  flight.
\<close>

theorem reachable_no_partial_result:
  assumes "reachable s"
  shows "(error (view s) \<noteq> None \<longrightarrow> extracted_data (view s) = None) \<and>
    (is_loading (view s) \<longrightarrow> error (view s) = None)"
  using app_inv_facts [OF assms] by blast

theorem reachable_no_partial_result_witness:
  "reachable (app_step (app_run init_app in_flight_run) (Settle (Rejected (JsError ''Network Error'')))) \<and>
   error (view (app_step (app_run init_app in_flight_run) (Settle (Rejected (JsError ''Network Error''))))) =
     Some ''Network Error'' \<and>
   extracted_data (view (app_step (app_run init_app in_flight_run)
     (Settle (Rejected (JsError ''Network Error''))))) = None"
proof -
  let ?s = "app_step (app_run init_app in_flight_run) (Settle (Rejected (JsError ''Network Error'')))"
  have r: "reachable ?s" by (rule reachable.step [OF reachable_in_flight])
  have "error (view ?s) = Some ''Network Error''"
    by (simp add: in_flight_state catch_message_def)
  with reachable_no_partial_result [OF r] r show ?thesis by simp
qed

text \<open>
  C17 (ordering): editing the job text or dropping a file while a request is in
  flight does not change what the request's outcome shows: the result and the
  error after the outcome are those the outcome gives without the edit.
\<close>

theorem edit_during_flight_irrelevant:
  assumes "reachable s" and "pending s \<noteq> None" and "e = Drop fs \<or> e = EditJob t"
  shows "extracted_data (view (app_step (app_step s e) (Settle out))) =
      extracted_data (view (app_step s (Settle out))) \<and>
    error (view (app_step (app_step s e) (Settle out))) = error (view (app_step s (Settle out)))"
proof -
  have "error (view s) = None" using app_inv_facts [OF assms(1)] assms(2) by auto
  then show ?thesis using assms(2,3)
    by (cases out; cases "handle_response (case out of Response b \<Rightarrow> b | _ \<Rightarrow> JNull)")
      (auto simp: on_drop_def on_job_change_def)
qed

theorem edit_during_flight_irrelevant_witness:
  "extracted_data (view (app_step (app_step (app_run init_app in_flight_run) (EditJob ''Go''))
      (Settle (Response (JObj [(''error'', JStr ''busy'')]))))) =
     extracted_data (view (app_step (app_run init_app in_flight_run)
      (Settle (Response (JObj [(''error'', JStr ''busy'')]))))) \<and>
   error (view (app_step (app_step (app_run init_app in_flight_run) (EditJob ''Go''))
      (Settle (Response (JObj [(''error'', JStr ''busy'')]))))) =
     error (view (app_step (app_run init_app in_flight_run)
      (Settle (Response (JObj [(''error'', JStr ''busy'')])))))"
  by (rule edit_during_flight_irrelevant [OF reachable_in_flight, of "EditJob ''Go''" "[]" "''Go''"])
    (simp_all add: in_flight_state)

text \<open>
  C18 (liveness of the guard): whatever the outcome of the request in flight, once
  it settles no request is pending, the loading flag is cleared and the button is
  enabled again exactly when a file and a job text are present.
\<close>

theorem settle_rearms:
  assumes "pending s \<noteq> None"
  shows "pending (app_step s (Settle out)) = None \<and> \<not> is_loading (view (app_step s (Settle out))) \<and>
    (submit_disabled (view (app_step s (Settle out))) \<longleftrightarrow>
       resume (view s) = None \<or> job_description (view s) = [])"
  using assms by (cases out) (auto simp: submit_disabled_def)

theorem settle_rearms_witness:
  "pending (app_step (app_run init_app in_flight_run) (Settle (Response JNull))) = None \<and>
   \<not> is_loading (view (app_step (app_run init_app in_flight_run) (Settle (Response JNull)))) \<and>
   \<not> submit_disabled (view (app_step (app_run init_app in_flight_run) (Settle (Response JNull))))"
  using settle_rearms [of "app_run init_app in_flight_run" "Response JNull"]
  by (simp add: in_flight_state)

text \<open>
  C19 (refinement): every step of the code, from any reachable state, is a step
  (or a stutter) of the specification's submission machine under
  \<open>abs_state\<close>: a submission goes to InFlight only from another state, leaves
  InFlight only to Succeeded or Failed, and a Failed state returns to Idle only
  through a new drop.
\<close>

theorem app_step_refines_spec:
  assumes "reachable s"
  shows "spec_step (abs_state s) (abs_state (app_step s e))"
  using reachable_app_inv [OF assms] by (rule refine_step)

theorem app_step_refines_spec_witness:
  "spec_step (abs_state (app_run init_app in_flight_run))
     (abs_state (app_step (app_run init_app in_flight_run) (Settle (Rejected (JsError ''Network Error'')))))"
  by (rule app_step_refines_spec [OF reachable_in_flight])


text \<open>
  C26 (ordering over a trace): two submissions in a row, from a state with a resume,
  a job text and no request in flight, end with exactly the result and error the
  second outcome gives on its own: nothing of the first outcome survives the
  second submission.
\<close>

theorem second_submission_decides:
  assumes "resume (view s) = Some f" and "job_description (view s) \<noteq> []"
    and "\<not> is_loading (view s)"
  shows "extracted_data (view (app_run s [Click, Settle o1, Click, Settle o2])) =
      extracted_data (view (app_run s [Click, Settle o2])) \<and>
    error (view (app_run s [Click, Settle o1, Click, Settle o2])) =
      error (view (app_run s [Click, Settle o2]))"
proof -
  have v: "validate (resume (view s)) (job_description (view s)) = Inr f"
    using assms(1,2) by (simp add: validate_Inr_iff)
  with assms show ?thesis
    by (cases "handle_response (case o2 of Response b \<Rightarrow> b | _ \<Rightarrow> JNull)"; cases o2)
      (simp_all add: submit_begin_valid submit_disabled_def)
qed

theorem second_submission_decides_witness:
  "extracted_data (view (app_run (app_run init_app [Drop [sample_pdf], EditJob ''SQL''])
      [Click, Settle (Rejected (JsError ''timeout'')), Click, Settle (Response JNull)])) =
     extracted_data (view (app_run (app_run init_app [Drop [sample_pdf], EditJob ''SQL''])
      [Click, Settle (Response JNull)])) \<and>
   error (view (app_run (app_run init_app [Drop [sample_pdf], EditJob ''SQL''])
      [Click, Settle (Rejected (JsError ''timeout'')), Click, Settle (Response JNull)])) =
     error (view (app_run (app_run init_app [Drop [sample_pdf], EditJob ''SQL''])
      [Click, Settle (Response JNull)]))"
proof -
  have s: "app_run init_app [Drop [sample_pdf], EditJob ''SQL''] =
      \<lparr>view = init_view\<lparr>resume := Some sample_pdf, job_description := ''SQL''\<rparr>, pending = None\<rparr>"
    by (simp add: init_app_def init_view_def on_drop_def on_job_change_def dropzone_accepted_def
        max_files_def pdf_accepted_def accept_mime_def sample_pdf_def)
  show ?thesis
    unfolding s
    by (rule second_submission_decides [where f = sample_pdf]) (simp_all add: init_view_def)
qed

end
