(* ===== verification/Spec2Isabelle.thy ===== *)
theory Spec2Isabelle
  imports App_Machine
begin

text \<open>
  Verification library of the Resume Skill Analyzer client. The program is one React
  component, src/src/App.tsx (199 lines). The user drops a resume file and types a
  job description. A submit button posts both as a multi-part form to a remote
  analysis service, and the component shows the returned extraction (name,
  education, experience, skills) and a skill-match breakdown with a two-slice pie
  chart. The components, leaf first, and the theory modelling each:

  \<^item> JavaScript values (Js_Value). Not code of the repository: the JSON values the
    response body parses to, and the parts of the language semantics the code's
    control flow uses. These are truthiness, property reads and the TypeError they
    throw on null, the \<open>&&\<close> short circuit, \<open>String(v)\<close> as applied by
    \<open>new Error(v)\<close> and by React to a number, \<open>Array.prototype.join\<close>, and
    \<open>ToNumber(v)\<close> with the subtraction \<open>100 - v\<close> of the chart (\<open>js_to_number\<close>,
    \<open>js_minus\<close>). A number is printed by ECMAScript's \<open>Number::toString\<close> on its exact
    value (\<open>js_number_string\<close>), with the exponent forms for \<open>n > 21\<close> and
    \<open>n \<le> -6\<close>; \<open>js_number_string_int\<close> shows that an integer below \<open>10^21\<close> prints as
    its digits.
  \<^item> ResultModel (Result_Model): the \<open>ExtractionResult\<close> interface (lines 8--20) as the
    records \<open>extraction_result\<close> and \<open>skill_match\<close>. The code never checks this
    shape at run time; \<open>decode_result\<close> says which JSON values have it, to state
    what the code does on them (C22, C28), and \<open>encode_result\<close> writes a record as
    JSON for the concrete instances.
  \<^item> Intake (Intake, View_State): react-dropzone's filtering for the configuration
    at lines 29--31 (\<open>dropzone_accepted\<close>: PDF by MIME type or extension, and every
    file rejected when more than \<open>maxFiles = 1\<close> pass), and the \<open>onDrop\<close> handler
    (lines 32--35, \<open>on_drop\<close>). C13 characterises the resume held after a drop.
  \<^item> ViewState (View_State): the five \<open>useState\<close> hooks (lines 23--27) as the record
    \<open>view_state\<close>, and the textarea handler (line 134, \<open>on_job_change\<close>).
  \<^item> Validator (Validator): the guards of \<open>handleSubmit\<close> (lines 44--45,
    \<open>validate\<close>) and the button's \<open>disabled\<close> test (line 140, \<open>submit_disabled\<close>).
    C11: the button's test implies the guards. C12: white-space job text passes,
    unlike in the specification.
  \<^item> SubmissionController (Submission): \<open>handleSubmit\<close> (lines 38--68) split at its one
    \<open>await\<close>. \<open>submit_begin\<close> is the synchronous part up to the request (C4, C9).
    \<open>submit_finish\<close> runs when the request settles: \<open>handle_response\<close> branches on
    the body (lines 55--61), and \<open>submit_settle\<close> is the store plus
    \<open>catch\<close>/\<open>finally\<close>. C5--C8 give each branch. C24: an integer error below
    \<open>2^53\<close> is shown as its decimal digits.
  \<^item> Presentation on raw values (Render_Js): the result panel (lines 153--193) as
    JavaScript and React evaluate it on the stored value of any shape. It covers the
    skill lines (\<open>match_details_js\<close>; C21), React's rendering of a field as a child
    (\<open>react_child\<close>; C23: an object throws) and the chart guard
    (\<open>chart_shown_js\<close>). C22 is type soundness: a value of the ExtractionResult
    shape renders, without throwing, as its typed rendering \<open>typed_panel\<close>.
  \<^item> ChartProjector and page (Chart): \<open>renderPieChart\<close> (lines 70--85,
    \<open>render_pie_chart\<close>; C14, C15), the same dataset on the stored value of any
    shape (\<open>pie_data_js\<close>: C27 it never throws, C28 it refines the typed chart, C29
    a percentage that is not a number gives \<open>NaN\<close>), and \<open>render_view\<close>, what the
    page shows (lines 102--197). A stored value that does not decode is shown through
    \<open>render_result_js\<close>, and C25 shows a failure whose message the error box hides.
  \<^item> The component as a state machine (App_Machine). The state \<open>app_state\<close> is the
    view state plus the request in flight (the suspended handler). The events are
    drop, edit, click and settle, and \<open>app_step\<close> performs one of them.
    \<open>reachable\<close> is the set of states some event sequence reaches from
    \<open>init_app\<close>, and \<open>app_inv\<close> is the invariant, proved by rule induction
    (C3, C10, C16). The specification's machine Idle / InFlight / Succeeded / Failed
    is \<open>spec_step\<close>, and every step of \<open>app_step\<close> from a reachable state refines it
    under \<open>abs_state\<close> (C19). C26 orders two submissions in a row: the second
    outcome alone decides the result and the error.
  \<^item> Properties across components (this theory): the end-to-end successful
    submission (C1), the stale result shown while a new request is in flight (C20),
    a data value without \<open>skillMatch\<close> that breaks the page (C21) and the silent
    failure of an empty error (C25).

  Interaction: a click runs the button guard, then \<open>submit_begin\<close>. The transport
  (axios) and the remote service are the environment: the \<open>Settle\<close> event carries
  any response body or any rejection, so every theorem about reachable states holds
  for every server behaviour. Edits and drops may interleave with a request in
  flight (C17). The guard against a second submission is the button's
  \<open>disabled\<close> flag alone (C2, C18).

  No bounds or fuel limit the state machine: \<open>app_step\<close> is total and every handler
  ends. The source has no loops; the recursive functions of the model (string
  conversion, React children, digits) terminate by structural or size arguments
  that \<^theory_text>\<open>fun\<close> proves. The only fuel is the 400 decimal places \<open>dec_places\<close>
  tries when it prints a number, which covers every literal of at most 17
  significant digits in the range of doubles (down to about \<open>5e-324\<close>).

  Not modelled. The HTTP transport, beyond "a parsed body or an Error". The remote
  analysis algorithm. Chart.js drawing, the chart options (legend position, lines
  87--93) and the JSX markup beyond the values shown. React rendering and batching,
  beyond "each handler is one state update". IEEE rounding of numbers: they are the
  exact values of their literals, which agrees with JavaScript for literals of at
  most 15 significant digits. The reordering of array-index keys in React's error
  message.

  Plan for extending the library, in order.
  \<^enum> The page on raw values: \<open>render_view\<close> with the chart of \<open>pie_data_js\<close> in the
    untyped panel, and the NaN slice through Chart.js's parsing.
  \<^enum> More traces over \<open>app_run\<close>: a drop or an edit between two submissions, and
    the page after each step of a run.
\<close>

definition accepted_response :: "extraction_result \<Rightarrow> jsval" where
  "accepted_response r = JObj [(''data'', encode_result r)]"

definition stale_run :: "event list" where
  "stale_run = in_flight_run @ [Settle (Response (accepted_response (sample_result 40))), Click]"

definition empty_error_response :: jsval where
  "empty_error_response = JObj [(''error'', JArr [])]"

lemma obj_field_accepted [simp]: "obj_field [(''data'', v)] ''data'' = v"
  by (simp add: obj_field_def)

lemma handle_accepted [simp]:
  "handle_response (accepted_response r) = Inr (encode_result r)"
  by (simp add: accepted_response_def handle_response_obj)

text \<open>
  C1 (functional, end to end): from any state holding a resume and a non-empty job
  text with no request in flight, a click followed by a response
  \<open>{"data": R}\<close> for an extraction result \<open>R\<close> stores \<open>R\<close> with no error, clears the
  loading flag and re-enables the button, and the page shows \<open>R\<close>'s chart with
  slices \<open>p\<close> and \<open>100 - p\<close>, its three skill lists and its extracted fields.
\<close>

theorem submit_success_end_to_end:
  assumes "resume (view s) = Some f" and "job_description (view s) \<noteq> []"
    and "\<not> is_loading (view s)"
  shows "extracted_data (view (app_step (app_step s Click) (Settle (Response (accepted_response r)))))
      = Some (encode_result r) \<and>
    error (view (app_step (app_step s Click) (Settle (Response (accepted_response r))))) = None \<and>
    \<not> submit_disabled (view (app_step (app_step s Click) (Settle (Response (accepted_response r))))) \<and>
    result (render_view (view (app_step (app_step s Click) (Settle (Response (accepted_response r)))))) =
      Some (Panel (Some \<lparr>chart_labels = [''Matching Skills'', ''Missing Skills''],
          chart_values = [match_percentage (skill_match r), 100 - match_percentage (skill_match r)],
          chart_colors = [''#4CAF50'', ''#FF5252''], chart_border = 0\<rparr>)
        [render_skill_list (matching (skill_match r)), render_skill_list (missing (skill_match r)),
         render_skill_list (additional (skill_match r))]
        (extracted_info r))"
proof -
  have v: "validate (resume (view s)) (job_description (view s)) = Inr f"
    using assms by (simp add: validate_Inr_iff)
  have en: "\<not> submit_disabled (view s)" using assms by (simp add: submit_disabled_def)
  show ?thesis
    using assms en
    by (simp add: submit_begin_valid [OF v] submit_disabled_def render_view_def
        encode_result_def obj_field_def render_pie_chart_def extracted_info_def)
qed

theorem submit_success_end_to_end_witness:
  "extracted_data (view (app_step (app_step (app_run init_app [Drop [sample_pdf], EditJob ''SQL'']) Click)
      (Settle (Response (accepted_response (sample_result 40)))))) =
     Some (encode_result (sample_result 40)) \<and>
   error (view (app_step (app_step (app_run init_app [Drop [sample_pdf], EditJob ''SQL'']) Click)
      (Settle (Response (accepted_response (sample_result 40)))))) = None"
proof -
  have s: "app_run init_app [Drop [sample_pdf], EditJob ''SQL''] =
      \<lparr>view = init_view\<lparr>resume := Some sample_pdf, job_description := ''SQL''\<rparr>, pending = None\<rparr>"
    by (simp add: init_app_def init_view_def on_drop_def on_job_change_def dropzone_accepted_def
        max_files_def pdf_accepted_def accept_mime_def sample_pdf_def)
  show ?thesis
    unfolding s
    using submit_success_end_to_end [of "\<lparr>view = init_view\<lparr>resume := Some sample_pdf,
        job_description := ''SQL''\<rparr>, pending = None\<rparr>" sample_pdf "sample_result 40"]
    by (simp add: init_view_def)
qed

text \<open>
  C20 (divergence from the specification): the specification's InFlight state
  carries no result, but the code keeps the previous result on screen while a new
  request is in flight: a reachable state is loading and shows a result.
\<close>

theorem stale_result_in_flight:
  "reachable (app_run init_app stale_run) \<and>
   abs_state (app_run init_app stale_run) = InFlight \<and>
   is_loading (view (app_run init_app stale_run)) \<and>
   extracted_data (view (app_run init_app stale_run)) = Some (encode_result (sample_result 40))"
proof -
  have r: "reachable (app_run init_app stale_run)"
    by (rule reachable_run [OF reachable.init])
  have "app_run init_app stale_run =
      app_step (app_step (app_run init_app in_flight_run)
        (Settle (Response (accepted_response (sample_result 40))))) Click"
    by (simp add: stale_run_def in_flight_run_def)
  also have "\<dots> = \<lparr>view = \<lparr>resume = Some sample_pdf, job_description = ''SQL'',
      extracted_data = Some (encode_result (sample_result 40)), is_loading = True, error = None\<rparr>,
      pending = Some (build_form_data sample_pdf ''SQL'')\<rparr>"
    by (simp add: in_flight_state submit_disabled_def submit_begin_def validate_def)
  finally show ?thesis using r by simp
qed

text \<open>
  C21 (code bug): the code trusts the TypeScript type of \<open>response.data.data\<close>.
  From any reachable state with a request in flight, a truthy \<open>data\<close> value without
  a \<open>skillMatch\<close> field (an object lacking it, a string, a number, an array) is
  stored as a successful result with no error, and rendering its match details
  (line 164) then throws a \<open>TypeError\<close>, so the page has no result panel to show.
  The chart's guard \<open>extractedData?.skillMatch\<close> (line 71) anticipates a missing
  field that the details panel does not.
\<close>

theorem untyped_data_breaks_details:
  assumes "reachable s" and "pending s \<noteq> None"
    and "js_truthy d" and "js_get d ''skillMatch'' = Inr JUndefined"
  shows "extracted_data (view (app_step s (Settle (Response (JObj [(''data'', d)]))))) = Some d \<and>
    error (view (app_step s (Settle (Response (JObj [(''data'', d)]))))) = None \<and>
    result (render_view (view (app_step s (Settle (Response (JObj [(''data'', d)])))))) =
      Some (Untyped (Inl (read_type_error ''undefined'' ''matching'')))"
proof -
  have inv: "app_inv s" using assms(1) by (rule reachable_app_inv)
  with assms(2) have err: "error (view s) = None" by (simp add: app_inv_def)
  from assms(2) obtain req where req: "pending s = Some req" by blast
  have dec: "decode_result d = None"
    using assms(4) by (cases d) (auto simp: obj_field_def)
  have "render_result_js d = Inl (read_type_error ''undefined'' ''matching'')"
    using assms(4) by (simp add: render_result_js_def match_details_js_def skill_list_js_def)
  with assms(3) req err dec show ?thesis
    by (simp add: handle_response_obj render_view_def)
qed

theorem untyped_data_breaks_details_witness:
  "extracted_data (view (app_step (app_run init_app in_flight_run)
      (Settle (Response (JObj [(''data'', JObj [(''name'', JStr ''Ada'')])]))))) =
     Some (JObj [(''name'', JStr ''Ada'')]) \<and>
   error (view (app_step (app_run init_app in_flight_run)
      (Settle (Response (JObj [(''data'', JObj [(''name'', JStr ''Ada'')])]))))) = None \<and>
   result (render_view (view (app_step (app_run init_app in_flight_run)
      (Settle (Response (JObj [(''data'', JObj [(''name'', JStr ''Ada'')])])))))) =
     Some (Untyped (Inl (read_type_error ''undefined'' ''matching'')))"
  by (rule untyped_data_breaks_details [OF reachable_in_flight])
    (simp_all add: in_flight_state obj_field_def)

text \<open>
  C25 (divergence from the specification): a server that reports its error as an
  empty array passes the truthiness test of line 57, and \<open>new Error([])\<close> has the
  empty message. The submission ends Failed with an empty message, which the error
  box of line 146 hides. The page then shows neither an error nor a result, and
  the button is enabled again: the spec requires every failure to be surfaced as
  a human-readable message.
\<close>

theorem silent_failure:
  "reachable (app_step (app_run init_app in_flight_run) (Settle (Response empty_error_response))) \<and>
   abs_state (app_step (app_run init_app in_flight_run) (Settle (Response empty_error_response))) = Failed [] \<and>
   error_box (render_view (view (app_step (app_run init_app in_flight_run)
     (Settle (Response empty_error_response))))) = None \<and>
   result (render_view (view (app_step (app_run init_app in_flight_run)
     (Settle (Response empty_error_response))))) = None \<and>
   \<not> button_disabled (render_view (view (app_step (app_run init_app in_flight_run)
     (Settle (Response empty_error_response)))))"
proof -
  have r: "reachable (app_step (app_run init_app in_flight_run) (Settle (Response empty_error_response)))"
    by (rule reachable.step [OF reachable_in_flight])
  have "handle_response empty_error_response = Inl (JsError [])"
    by (simp add: empty_error_response_def handle_response_obj obj_field_def js_new_error_def)
  with r show ?thesis
    by (simp add: in_flight_state abs_state_def render_view_def catch_message_def submit_disabled_def)
qed

end
